theory Spec2Isabelle
  imports Main "HOL-Library.Word"
begin

unbundle bit_operations_syntax

section \<open>The file pool of the chunkserver (src/chunkserver/datastore/file_pool.cpp)\<close>

text \<open>
  The C++ integer types are modelled by machine words: \<open>uint32_t\<close> is \<open>32 word\<close>,
  \<open>uint64_t\<close> and \<open>size_t\<close> are \<open>64 word\<close>. A buffer of \<open>char\<close> is a \<open>string\<close>,
  whose characters are the 256 byte values; a path is a \<open>string\<close> too.
  The \<open>int\<close> results of the file system calls are only compared and returned, so
  they are modelled by HOL integers; each conversion the code makes between an \<open>int\<close>
  and an unsigned type is written out (\<open>uint\<close>, \<open>sint\<close>, \<open>of_int\<close>).
\<close>

type_synonym u32 = "32 word"
type_synonym u64 = "64 word"

subsection \<open>The file system interface\<close>

text \<open>
  \<open>LocalFileSystem\<close> is an abstract class that the pool holds by pointer
  (\<open>fsptr_\<close>). It is modelled as a record of functions over a file system state
  \<open>'fs\<close>, which every call takes and returns. Nothing is assumed about what the
  calls do: a theorem about the pool holds for every implementation.
\<close>

record FileSystemInfo =
  total_bytes :: u64
  available_bytes :: u64

record 'fs LocalFileSystem =
  Open :: "'fs \<Rightarrow> string \<Rightarrow> int \<Rightarrow> int \<times> 'fs"
  Close :: "'fs \<Rightarrow> int \<Rightarrow> int \<times> 'fs"
  Delete :: "'fs \<Rightarrow> string \<Rightarrow> int \<times> 'fs"
  Rename :: "'fs \<Rightarrow> string \<Rightarrow> string \<Rightarrow> int \<Rightarrow> int \<times> 'fs"
  Write :: "'fs \<Rightarrow> int \<Rightarrow> string \<Rightarrow> u64 \<Rightarrow> u64 \<Rightarrow> int \<times> 'fs"
  Read :: "'fs \<Rightarrow> int \<Rightarrow> u64 \<Rightarrow> u64 \<Rightarrow> int \<times> string \<times> 'fs"
  Fsync :: "'fs \<Rightarrow> int \<Rightarrow> int \<times> 'fs"
  Fstat :: "'fs \<Rightarrow> int \<Rightarrow> int \<times> int \<times> 'fs"
  Fallocate :: "'fs \<Rightarrow> int \<Rightarrow> int \<Rightarrow> u64 \<Rightarrow> u64 \<Rightarrow> int \<times> 'fs"
  Statfs :: "'fs \<Rightarrow> string \<Rightarrow> int \<times> FileSystemInfo \<times> 'fs"
  ListDir :: "'fs \<Rightarrow> string \<Rightarrow> int \<times> string list \<times> 'fs"
  DirExists :: "'fs \<Rightarrow> string \<Rightarrow> bool \<times> 'fs"
  FileExists :: "'fs \<Rightarrow> string \<Rightarrow> bool \<times> 'fs"
  Mkdir :: "'fs \<Rightarrow> string \<Rightarrow> int \<times> 'fs"

text \<open>
  \<open>Fstat\<close> returns its result and the \<open>st_size\<close> it stored; \<open>Read\<close> its result and
  the bytes it stored; \<open>ListDir\<close> (the method \<open>List\<close>) its result and the names;
  \<open>Statfs\<close> its result and the \<open>FileSystemInfo\<close> (fields \<open>total\<close> and \<open>available\<close>).
  The flags of \<open>fcntl.h\<close>, \<open>linux/fs.h\<close> and \<open>errno.h\<close> that the pool passes:
\<close>

definition O_RDONLY :: int where "O_RDONLY = 0"
definition O_RDWR :: int where "O_RDWR = 2"
definition O_CREAT :: int where "O_CREAT = 64"
definition O_SYNC :: int where "O_SYNC = 1052672"
definition FALLOC_FL_ZERO_RANGE :: int where "FALLOC_FL_ZERO_RANGE = 16"
definition RENAME_NOREPLACE :: int where "RENAME_NOREPLACE = 1"
definition EEXIST :: int where "EEXIST = 17"

subsection \<open>Options, state and the pool object\<close>

record FilePoolOptions =
  getFileFromPool :: bool
  needClean :: bool
  bytesPerWrite :: u32
  iops4clean :: u32
  fileSize :: u32
  metaPageSize :: u32
  blockSize :: u32
  metaFileSize :: u32
  filePoolSize :: u64
  allocatedByPercent :: bool
  allocatedPercent :: u32
  formatThreadNum :: u32
  chunkReserved :: u32
  retryTimes :: nat
  metaPath :: string
  filePoolDir :: string
  copysetDir :: string
  recycleDir :: string
  isAllocated :: "string \<Rightarrow> bool"

record FilePoolState =
  st_chunkSize :: u32
  st_metaPageSize :: u32
  st_blockSize :: u32
  chunkNum :: u64
  dirtyChunksLeft :: u64
  cleanChunksLeft :: u64
  preallocatedChunksLeft :: u64

record ChunkFormatStat =
  isWrong :: bool
  allocateChunkNum :: u32
  preAllocateNum :: u32

text \<open>
  The members of the class \<open>FilePool\<close> that the modelled functions read or write.
  The two free lists are vectors, used as stacks at their back, so the last element of
  the HOL list is the back of the vector. The member \<open>formatThread_\<close> runs
  \<open>FormatWorker\<close>; the model keeps where that thread stands: not created, created by
  \<open>Initialize\<close> and not yet past its first statement, or past it, with the two
  locals of \<open>FormatWorker\<close> that its tasks share (\<open>offset\<close> and \<open>allocatIndex\<close>).
\<close>

datatype FormatThread = NotStarted | Spawned | Running u64 u32

record FilePool =
  poolOpt :: FilePoolOptions
  currentdir :: string
  currentState :: FilePoolState
  formatStat :: ChunkFormatStat
  dirtyChunks :: "u64 list"
  cleanChunks :: "u64 list"
  currentmaxfilenum :: u64
  formatAlived :: bool
  cleanAlived :: bool
  writeBuffer :: string
  formatThread :: FormatThread

subsection \<open>Strings\<close>

text \<open>
  \<open>std::to_string\<close> of an unsigned number, \<open>std::isdigit\<close> in the C locale, and
  \<open>atoll\<close> on the strings that reach it (decimal digits only, checked by the scan
  before the call): the value of the digits, which the C library clamps to \<open>LLONG_MAX\<close>,
  converted to \<open>uint64_t\<close>. \<open>StringEndsWith\<close> is the helper of
  \<open>src/common/string_util.h\<close>.
\<close>

fun decimal :: "nat \<Rightarrow> string" where
  "decimal n = (if n < 10 then [''0123456789'' ! n]
                else decimal (n div 10) @ [''0123456789'' ! (n mod 10)])"

declare decimal.simps [simp del]

definition to_string :: "u64 \<Rightarrow> string" where
  "to_string w = decimal (unat w)"

definition isdigit :: "char \<Rightarrow> bool" where
  "isdigit c = (c \<in> set ''0123456789'')"

definition atoll :: "string \<Rightarrow> u64" where
  "atoll s =
    (let v = foldl (\<lambda>a c. 10 * a + (of_char c - 48)) (0::nat) (takeWhile isdigit s)
     in of_nat (min v (2 ^ 63 - 1)))"

definition StringEndsWith :: "string \<Rightarrow> string \<Rightarrow> bool" where
  "StringEndsWith str suffix =
    (length suffix \<le> length str \<and> drop (length str - length suffix) str = suffix)"

definition kCleanChunkSuffix :: string where
  "kCleanChunkSuffix = ''.clean''"

subsection \<open>AllocateChunk, WriteMetaPage and CleanChunk\<close>

text \<open>
  \<open>chunklen\<close> is \<open>poolOpt_.fileSize + poolOpt_.metaPageSize\<close>: a sum of two
  \<open>uint32_t\<close> values, computed in 32 bits and then widened to \<open>uint64_t\<close>.
\<close>

definition chunklen :: "FilePoolOptions \<Rightarrow> u64" where
  "chunklen opt = ucast (fileSize opt + metaPageSize opt)"

definition AllocateChunk ::
  "'fs LocalFileSystem \<Rightarrow> FilePool \<Rightarrow> string \<Rightarrow> 'fs \<Rightarrow> int \<times> 'fs" where
  "AllocateChunk fsptr pool chunkpath fs =
    (case Open fsptr fs chunkpath (O_RDWR OR O_CREAT) of (ret, fs1) \<Rightarrow>
      if ret < 0 then (- 1, fs1)
      else
        let fd = ret in
        case Fallocate fsptr fs1 fd 0 0 (chunklen (poolOpt pool)) of (ret, fs2) \<Rightarrow>
          if ret < 0 then (ret, snd (Close fsptr fs2 fd))
          else
            case Write fsptr fs2 fd
                   (replicate (unat (chunklen (poolOpt pool))) (CHR 0x00))
                   0 (chunklen (poolOpt pool)) of (ret, fs3) \<Rightarrow>
              if ret < 0 then (ret, snd (Close fsptr fs3 fd))
              else
                case Fsync fsptr fs3 fd of (ret, fs4) \<Rightarrow>
                  if ret < 0 then (ret, snd (Close fsptr fs4 fd))
                  else Close fsptr fs4 fd)"

definition WriteMetaPage ::
  "'fs LocalFileSystem \<Rightarrow> FilePool \<Rightarrow> string \<Rightarrow> string \<Rightarrow> 'fs \<Rightarrow> int \<times> 'fs" where
  "WriteMetaPage fsptr pool sourcepath page fs =
    (case Open fsptr fs sourcepath O_RDWR of (ret, fs1) \<Rightarrow>
      if ret < 0 then (ret, fs1)
      else
        let fd = ret in
        case Write fsptr fs1 fd page 0 (ucast (metaPageSize (poolOpt pool))) of (ret, fs2) \<Rightarrow>
          if ret \<noteq> sint (metaPageSize (poolOpt pool)) then (ret, snd (Close fsptr fs2 fd))
          else
            case Fsync fsptr fs2 fd of (ret, fs3) \<Rightarrow>
              if ret \<noteq> 0 then (ret, snd (Close fsptr fs3 fd))
              else Close fsptr fs3 fd)"

text \<open>
  The write loop of \<open>CleanChunk\<close>. It ends early with the value the function returns
  (\<open>Some\<close>), or runs to its end (\<open>None\<close>). A \<open>Write\<close> that keeps returning 0 keeps the
  loop running, so the loop is a partial function. The throttle
  (\<open>cleanThrottle_.Add\<close>) only delays the caller and is left out.
\<close>

partial_function (option) CleanChunk_loop ::
  "'fs LocalFileSystem \<Rightarrow> int \<Rightarrow> string \<Rightarrow> u32 \<Rightarrow> u64 \<Rightarrow> u64 \<Rightarrow> 'fs
    \<Rightarrow> (int option \<times> 'fs) option"
where
  "CleanChunk_loop fsptr fd buffer bytesPerWrite' ntotal nwrite fs =
    (if nwrite < ntotal then
       (case Write fsptr fs fd buffer nwrite (min (ntotal - nwrite) (ucast bytesPerWrite')) of
          (nbytes, fs1) \<Rightarrow>
            if nbytes < 0 then Some (Some nbytes, fs1)
            else
              (case Fsync fsptr fs1 fd of (r, fs2) \<Rightarrow>
                if r < 0 then Some (Some nbytes, fs2)
                else CleanChunk_loop fsptr fd buffer bytesPerWrite' ntotal
                       (nwrite + of_int nbytes) fs2))
     else Some (None, fs))"

declare CleanChunk_loop.simps [code]

text \<open>
  \<open>CleanChunk\<close> closes the descriptor on every path after a successful \<open>Open\<close>
  (the deleter of the local \<open>shared_ptr\<close>), once the returned value is fixed.
\<close>

definition CleanChunk ::
  "'fs LocalFileSystem \<Rightarrow> FilePool \<Rightarrow> u64 \<Rightarrow> bool \<Rightarrow> 'fs \<Rightarrow> (int \<times> 'fs) option" where
  "CleanChunk fsptr pool chunkid onlyMarked fs =
    (let chunkpath = currentdir pool @ ''/'' @ to_string chunkid in
     case Open fsptr fs chunkpath O_RDWR of (ret, fs1) \<Rightarrow>
       if ret < 0 then Some (ret, fs1)
       else
         let fd = ret;
             defer = (\<lambda>(r, fsx). (r, snd (Close fsptr fsx fd)));
             rename = (\<lambda>fsx. Rename fsptr fsx chunkpath (chunkpath @ kCleanChunkSuffix) 0)
         in
           if onlyMarked then
             (case Fallocate fsptr fs1 fd FALLOC_FL_ZERO_RANGE 0 (chunklen (poolOpt pool)) of
                (ret, fs2) \<Rightarrow>
                  if ret < 0 then Some (defer (ret, fs2))
                  else Some (defer (rename fs2)))
           else
             (case CleanChunk_loop fsptr fd (writeBuffer pool) (bytesPerWrite (poolOpt pool))
                     (chunklen (poolOpt pool)) 0 fs1 of
                None \<Rightarrow> None
              | Some (Some nbytes, fs2) \<Rightarrow> Some (defer (nbytes, fs2))
              | Some (None, fs2) \<Rightarrow> Some (defer (rename fs2))))"

subsection \<open>The clean worker\<close>

text \<open>
  The lambdas \<open>popBack\<close> and \<open>pushBack\<close> of \<open>CleaningChunk\<close> take a pointer to a list
  and a pointer to its counter; every call passes a list with its own counter, so the
  pair is modelled by the name of the list.
\<close>

datatype ChunkList = DirtyChunks | CleanChunks

fun popBack :: "ChunkList \<Rightarrow> FilePool \<Rightarrow> u64 \<times> FilePool" where
  "popBack DirtyChunks pool =
    (if dirtyChunks pool = [] then (0, pool)
     else (last (dirtyChunks pool),
           pool\<lparr>dirtyChunks := butlast (dirtyChunks pool),
                currentState := (currentState pool)\<lparr>
                  dirtyChunksLeft := dirtyChunksLeft (currentState pool) - 1,
                  preallocatedChunksLeft := preallocatedChunksLeft (currentState pool) - 1\<rparr>\<rparr>))"
| "popBack CleanChunks pool =
    (if cleanChunks pool = [] then (0, pool)
     else (last (cleanChunks pool),
           pool\<lparr>cleanChunks := butlast (cleanChunks pool),
                currentState := (currentState pool)\<lparr>
                  cleanChunksLeft := cleanChunksLeft (currentState pool) - 1,
                  preallocatedChunksLeft := preallocatedChunksLeft (currentState pool) - 1\<rparr>\<rparr>))"

fun pushBack :: "ChunkList \<Rightarrow> u64 \<Rightarrow> FilePool \<Rightarrow> FilePool" where
  "pushBack DirtyChunks chunkid pool =
    pool\<lparr>dirtyChunks := dirtyChunks pool @ [chunkid],
         currentState := (currentState pool)\<lparr>
           dirtyChunksLeft := dirtyChunksLeft (currentState pool) + 1,
           preallocatedChunksLeft := preallocatedChunksLeft (currentState pool) + 1\<rparr>\<rparr>"
| "pushBack CleanChunks chunkid pool =
    pool\<lparr>cleanChunks := cleanChunks pool @ [chunkid],
         currentState := (currentState pool)\<lparr>
           cleanChunksLeft := cleanChunksLeft (currentState pool) + 1,
           preallocatedChunksLeft := preallocatedChunksLeft (currentState pool) + 1\<rparr>\<rparr>"

definition CleaningChunk ::
  "'fs LocalFileSystem \<Rightarrow> FilePool \<Rightarrow> 'fs \<Rightarrow> (bool \<times> FilePool \<times> 'fs) option" where
  "CleaningChunk fsptr pool fs =
    (case popBack DirtyChunks pool of (chunkid, pool1) \<Rightarrow>
      if 0 = chunkid then Some (False, pool1, fs)
      else
        (case CleanChunk fsptr pool1 chunkid False fs of
           None \<Rightarrow> None
         | Some (ret, fs1) \<Rightarrow>
             if ret < 0 then Some (False, pushBack DirtyChunks chunkid pool1, fs1)
             else Some (True, pushBack CleanChunks chunkid pool1, fs1)))"

subsection \<open>GetChunk and GetFile\<close>

text \<open>
  The lambda \<open>pop\<close> of \<open>GetChunk\<close> writes the two output parameters \<open>*chunkid\<close> and
  \<open>*isCleaned\<close>; the model passes their values in and out with the pool.
\<close>

fun pop :: "ChunkList \<Rightarrow> bool \<Rightarrow> u64 \<times> bool \<times> FilePool \<Rightarrow> bool \<times> u64 \<times> bool \<times> FilePool" where
  "pop DirtyChunks isCleanChunks (chunkid, isCleaned, pool) =
    (if dirtyChunks pool = [] then (False, chunkid, isCleaned, pool)
     else (True, last (dirtyChunks pool), isCleanChunks,
           pool\<lparr>dirtyChunks := butlast (dirtyChunks pool),
                currentState := (currentState pool)\<lparr>
                  dirtyChunksLeft := dirtyChunksLeft (currentState pool) - 1,
                  preallocatedChunksLeft := preallocatedChunksLeft (currentState pool) - 1\<rparr>\<rparr>))"
| "pop CleanChunks isCleanChunks (chunkid, isCleaned, pool) =
    (if cleanChunks pool = [] then (False, chunkid, isCleaned, pool)
     else (True, last (cleanChunks pool), isCleanChunks,
           pool\<lparr>cleanChunks := butlast (cleanChunks pool),
                currentState := (currentState pool)\<lparr>
                  cleanChunksLeft := cleanChunksLeft (currentState pool) - 1,
                  preallocatedChunksLeft := preallocatedChunksLeft (currentState pool) - 1\<rparr>\<rparr>))"

definition wake_up :: "FilePool \<Rightarrow> bool" where
  "wake_up pool =
    (allocateChunkNum (formatStat pool) = preAllocateNum (formatStat pool)
     \<or> \<not> (dirtyChunks pool = [] \<and> cleanChunks pool = []))"

text \<open>
  \<open>GetChunk\<close> waits on the condition variable until \<open>wake_up\<close> holds. Only another
  thread can make it hold, so a call that has to wait does not return: the model's
  value is \<open>None\<close>. Otherwise the value is the result with the two output parameters,
  the pool and the file system.
\<close>

definition GetChunk ::
  "'fs LocalFileSystem \<Rightarrow> bool \<Rightarrow> u64 \<Rightarrow> bool \<Rightarrow> FilePool \<Rightarrow> 'fs
    \<Rightarrow> (int \<times> u64 \<times> bool \<times> FilePool \<times> 'fs) option" where
  "GetChunk fsptr needClean' chunkid isCleaned pool fs =
    (if allocateChunkNum (formatStat pool) \<noteq> preAllocateNum (formatStat pool)
        \<and> \<not> wake_up pool then None
     else if \<not> needClean' then
       (case pop DirtyChunks False (chunkid, isCleaned, pool) of
          (True, c, i, p) \<Rightarrow> Some (0, c, i, p, fs)
        | (False, out) \<Rightarrow>
            (case pop CleanChunks True out of
               (ret, c, i, p) \<Rightarrow> Some (if ret then 0 else - 1, c, i, p, fs)))
     else
       (case (case pop CleanChunks True (chunkid, False, pool) of
                (True, out) \<Rightarrow> (True, out)
              | (False, out) \<Rightarrow> pop DirtyChunks False out) of
          (ret, c, i, p) \<Rightarrow>
            if ret \<and> \<not> i then
              (case CleanChunk fsptr p c True fs of
                 None \<Rightarrow> None
               | Some (cleanRet, fs1) \<Rightarrow>
                   if cleanRet < 0 then Some (cleanRet, c, False, p, fs1)
                   else Some (0, c, True, p, fs1))
            else Some (if i then 0 else - 1, c, i, p, fs)))"

text \<open>
  One pass through the body of the retry loop of \<open>GetFile\<close>. The first component of
  the value says how the pass ends: \<open>True\<close> at \<open>retry++\<close> (the loop goes on), \<open>False\<close>
  at a \<open>break\<close>. The second is the value of \<open>ret\<close>. The local \<open>chunkID\<close> is not
  initialised by the code; it is read only after \<open>GetChunk\<close> has written it.
\<close>

definition GetFile_body ::
  "'fs LocalFileSystem \<Rightarrow> string \<Rightarrow> string \<Rightarrow> bool \<Rightarrow> FilePool \<Rightarrow> 'fs
    \<Rightarrow> (bool \<times> int \<times> FilePool \<times> 'fs) option" where
  "GetFile_body fsptr targetpath metapage needClean' pool fs =
    (let finish = (\<lambda>srcpath pool1 fs1.
           case WriteMetaPage fsptr pool1 srcpath metapage fs1 of (ret, fs2) \<Rightarrow>
             if ret \<ge> 0 then
               (case Rename fsptr fs2 srcpath targetpath RENAME_NOREPLACE of (ret, fs3) \<Rightarrow>
                  if ret = - EEXIST then (False, ret, pool1, fs3)
                  else if ret < 0 then (True, ret, pool1, fs3)
                  else (False, ret, pool1, fs3))
             else (True, ret, pool1, fs2))
     in
       if getFileFromPool (poolOpt pool) then
         (case GetChunk fsptr needClean' 0 False pool fs of
            None \<Rightarrow> None
          | Some (ret, chunkID, isCleaned, pool1, fs1) \<Rightarrow>
              if ret < 0 then Some (False, ret, pool1, fs1)
              else
                let srcpath = currentdir pool1 @ ''/'' @ to_string chunkID;
                    srcpath = (if isCleaned then srcpath @ kCleanChunkSuffix else srcpath)
                in Some (finish srcpath pool1 fs1))
       else
         (let srcpath = currentdir pool @ ''/'' @ to_string (currentmaxfilenum pool);
              pool1 = pool\<lparr>currentmaxfilenum := currentmaxfilenum pool + 1\<rparr>
          in case AllocateChunk fsptr pool1 srcpath fs of (ret, fs1) \<Rightarrow>
               if ret < 0 then Some (True, ret, pool1, fs1)
               else Some (finish srcpath pool1 fs1)))"

lemma pop_poolOpt:
  "pop l b (c, i, p) = (r, c', i', p') \<Longrightarrow> poolOpt p' = poolOpt p"
  by (cases l) (auto split: if_splits)

lemma GetChunk_poolOpt:
  "GetChunk fsptr n c i p fs = Some (r, c', i', p', fs') \<Longrightarrow> poolOpt p' = poolOpt p"
  unfolding GetChunk_def
  by (auto split: if_splits prod.splits bool.splits option.splits dest: pop_poolOpt)

lemma GetFile_body_poolOpt:
  "GetFile_body fsptr t m n p fs = Some (b, r, p', fs') \<Longrightarrow> poolOpt p' = poolOpt p"
  unfolding GetFile_body_def Let_def
  by (auto split: if_splits prod.splits option.splits dest: GetChunk_poolOpt)

text \<open>
  The retry loop of \<open>GetFile\<close>, from the values of \<open>ret\<close> and \<open>retry\<close> at the
  loop condition. Its value gives \<open>ret\<close> and \<open>retry\<close> as the loop leaves them, so
  that the number of retries a call has used can be stated. \<open>GetFile\<close> enters the
  loop with \<open>ret = -1\<close> and \<open>retry = 0\<close> and returns \<open>ret\<close>.
\<close>

function GetFile_loop ::
  "'fs LocalFileSystem \<Rightarrow> string \<Rightarrow> string \<Rightarrow> bool \<Rightarrow> int \<Rightarrow> int \<Rightarrow> FilePool \<Rightarrow> 'fs
    \<Rightarrow> (int \<times> int \<times> FilePool \<times> 'fs) option" where
  "GetFile_loop fsptr targetpath metapage needClean' ret retry pool fs =
    (if retry < int (retryTimes (poolOpt pool)) then
       (case GetFile_body fsptr targetpath metapage needClean' pool fs of
          None \<Rightarrow> None
        | Some (again, ret', pool', fs') \<Rightarrow>
            if again
            then GetFile_loop fsptr targetpath metapage needClean' ret' (retry + 1) pool' fs'
            else Some (ret', retry, pool', fs'))
     else Some (ret, retry, pool, fs))"
  by pat_completeness auto
termination
  by (relation "measure (\<lambda>(fsptr, t, m, n, ret, retry, pool, fs).
                  nat (int (retryTimes (poolOpt pool)) - retry))")
     (auto dest: GetFile_body_poolOpt)

declare GetFile_loop.simps [simp del]

definition GetFile ::
  "'fs LocalFileSystem \<Rightarrow> string \<Rightarrow> string \<Rightarrow> bool \<Rightarrow> FilePool \<Rightarrow> 'fs
    \<Rightarrow> (int \<times> FilePool \<times> 'fs) option" where
  "GetFile fsptr targetpath metapage needClean' pool fs =
    map_option (\<lambda>(ret, retry, pool', fs'). (ret, pool', fs'))
      (GetFile_loop fsptr targetpath metapage needClean' (- 1) 0 pool fs)"

subsection \<open>RecycleFile\<close>

definition RecycleFile ::
  "'fs LocalFileSystem \<Rightarrow> string \<Rightarrow> FilePool \<Rightarrow> 'fs \<Rightarrow> int \<times> FilePool \<times> 'fs" where
  "RecycleFile fsptr chunkpath pool fs =
    (if \<not> getFileFromPool (poolOpt pool) then
       (case Delete fsptr fs chunkpath of (ret, fs1) \<Rightarrow>
          if ret < 0 then (- 1, pool, fs1) else (0, pool, fs1))
     else
       (case Open fsptr fs chunkpath O_RDWR of (fd, fs1) \<Rightarrow>
          if fd < 0 then (case Delete fsptr fs1 chunkpath of (r, fs2) \<Rightarrow> (r, pool, fs2))
          else
            case Fstat fsptr fs1 fd of (ret, st_size, fs2) \<Rightarrow>
              if ret \<noteq> 0 then
                (case Delete fsptr (snd (Close fsptr fs2 fd)) chunkpath of
                   (r, fs3) \<Rightarrow> (r, pool, fs3))
              else if st_size \<noteq> sint (chunklen (poolOpt pool)) then
                (case Delete fsptr (snd (Close fsptr fs2 fd)) chunkpath of
                   (r, fs3) \<Rightarrow> (r, pool, fs3))
              else
                let fs3 = snd (Close fsptr fs2 fd);
                    pool1 = pool\<lparr>currentmaxfilenum := currentmaxfilenum pool + 1\<rparr>;
                    newfilenum = currentmaxfilenum pool1;
                    targetpath = currentdir pool1 @ ''/'' @ to_string newfilenum
                in case Rename fsptr fs3 chunkpath targetpath 0 of (ret, fs4) \<Rightarrow>
                     if ret < 0 then (- 1, pool1, fs4)
                     else
                       (0,
                        pool1\<lparr>dirtyChunks := dirtyChunks pool1 @ [newfilenum],
                              currentState := (currentState pool1)\<lparr>
                                dirtyChunksLeft := dirtyChunksLeft (currentState pool1) + 1,
                                preallocatedChunksLeft :=
                                  preallocatedChunksLeft (currentState pool1) + 1\<rparr>\<rparr>,
                        fs4)))"

subsection \<open>PrepareFormat\<close>

text \<open>
  \<open>bytesPerPage\<close> is the sum of two \<open>uint32_t\<close> values, computed in 32 bits and then
  widened. The division by \<open>bytesPerPage\<close> traps when it is zero: the model returns
  \<open>None\<close> there, and \<open>Some\<close> of the result, the pool and the file system otherwise.
\<close>

definition bytesPerPage :: "FilePoolOptions \<Rightarrow> u64" where
  "bytesPerPage opt = ucast (fileSize opt + metaFileSize opt)"

definition PrepareFormat ::
  "'fs LocalFileSystem \<Rightarrow> FilePool \<Rightarrow> 'fs \<Rightarrow> (bool \<times> FilePool \<times> 'fs) option" where
  "PrepareFormat fsptr pool fs =
    (case Statfs fsptr fs (currentdir pool) of (r, finfo, fs1) \<Rightarrow>
      if r \<noteq> 0 then Some (False, pool, fs1)
      else
        let opt = (if allocatedByPercent (poolOpt pool)
                   then (poolOpt pool)\<lparr>filePoolSize :=
                          total_bytes finfo * ucast (allocatedPercent (poolOpt pool)) div 100\<rparr>
                   else poolOpt pool);
            pool1 = pool\<lparr>poolOpt := opt\<rparr>;
            needSpace = filePoolSize opt - chunkNum (currentState pool1) * bytesPerPage opt
        in
          if bytesPerPage opt = 0 then None
          else if filePoolSize opt div bytesPerPage opt < chunkNum (currentState pool1) then
            Some (True,
                  pool1\<lparr>formatStat := (formatStat pool1)\<lparr>preAllocateNum := 0,
                                                           allocateChunkNum := 0\<rparr>\<rparr>,
                  fs1)
          else if available_bytes finfo < needSpace then Some (False, pool1, fs1)
          else
            Some (True,
                  pool1\<lparr>formatStat := (formatStat pool1)\<lparr>
                            preAllocateNum := ucast (needSpace div bytesPerPage opt),
                            allocateChunkNum := 0\<rparr>\<rparr>,
                  fs1))"

subsection \<open>The format worker\<close>

text \<open>
  \<open>FormatWorker\<close> first takes \<open>preAllocateNum\<close> file numbers from
  \<open>currentmaxfilenum_\<close> (\<open>fetch_add\<close> returns the value before the addition) and
  sets the shared index to 0; then its tasks run.
\<close>

definition FormatWorker_begin :: "FilePool \<Rightarrow> FilePool" where
  "FormatWorker_begin pool =
    pool\<lparr>currentmaxfilenum :=
           currentmaxfilenum pool + ucast (preAllocateNum (formatStat pool)),
         formatThread := Running (currentmaxfilenum pool) 0\<rparr>"

text \<open>
  One pass through the loop of \<open>FormatTask\<close>, from the loop condition. The value says
  whether the loop goes on, and gives the shared index, the pool and the file system.
  The wait on \<open>formatSleeper_\<close> only delays the task and is left out.
\<close>

definition FormatTask_body ::
  "'fs LocalFileSystem \<Rightarrow> u64 \<Rightarrow> u32 \<Rightarrow> FilePool \<Rightarrow> 'fs \<Rightarrow> bool \<times> u32 \<times> FilePool \<times> 'fs" where
  "FormatTask_body fsptr indexOffset allocatIndex pool fs =
    (if \<not> (\<not> isWrong (formatStat pool) \<and> formatAlived pool) then (False, allocatIndex, pool, fs)
     else
       let chunkIndex = allocatIndex in
       if chunkIndex \<ge> preAllocateNum (formatStat pool)
       then (False, allocatIndex + 1 - 1, pool, fs)
       else
         let chunkPath = currentdir pool @ ''/'' @ to_string (ucast chunkIndex + indexOffset)
                         @ kCleanChunkSuffix
         in case AllocateChunk fsptr pool chunkPath fs of (res, fs1) \<Rightarrow>
              if res \<noteq> 0
              then (False, allocatIndex + 1,
                    pool\<lparr>formatStat := (formatStat pool)\<lparr>isWrong := True\<rparr>\<rparr>, fs1)
              else
                (True, allocatIndex + 1,
                 pool\<lparr>cleanChunks := cleanChunks pool @ [ucast chunkIndex + indexOffset],
                      currentState := (currentState pool)\<lparr>
                        cleanChunksLeft := cleanChunksLeft (currentState pool) + 1,
                        preallocatedChunksLeft := preallocatedChunksLeft (currentState pool) + 1,
                        chunkNum := chunkNum (currentState pool) + 1\<rparr>,
                      formatStat := (formatStat pool)\<lparr>
                        allocateChunkNum := allocateChunkNum (formatStat pool) + 1\<rparr>\<rparr>,
                 fs1))"

subsection \<open>The scan of the pool directory\<close>

text \<open>
  \<open>CountAllocatedNum\<close> walks a directory tree depth first. The model keeps the
  entries still to visit, each with its directory, in the order the recursion visits
  them; the counter is the 32-bit local \<open>chunkNum\<close> (every level adds the count of
  the level below into a \<open>uint32_t\<close>). A tree that never ends gives no result.
\<close>

partial_function (option) CountAllocatedNum_walk ::
  "'fs LocalFileSystem \<Rightarrow> (string \<Rightarrow> bool) \<Rightarrow> (string \<times> string) list \<Rightarrow> u32 \<Rightarrow> 'fs
    \<Rightarrow> (u32 \<times> 'fs) option"
where
  "CountAllocatedNum_walk fsptr isAllocated' todo chunkNum' fs =
    (case todo of
       [] \<Rightarrow> Some (chunkNum', fs)
     | (path, file) # rest \<Rightarrow>
         (case DirExists fsptr fs (path @ ''/'' @ file) of (isDir, fs1) \<Rightarrow>
            if \<not> isDir then
              CountAllocatedNum_walk fsptr isAllocated' rest
                (if isAllocated' file then chunkNum' + 1 else chunkNum') fs1
            else
              (case ListDir fsptr fs1 (path @ ''/'' @ file) of (r, files, fs2) \<Rightarrow>
                 if 0 \<noteq> r then CountAllocatedNum_walk fsptr isAllocated' rest chunkNum' fs2
                 else CountAllocatedNum_walk fsptr isAllocated'
                        (map (Pair (path @ ''/'' @ file)) files @ rest) chunkNum' fs2)))"

declare CountAllocatedNum_walk.simps [code]

definition CountAllocatedNum ::
  "'fs LocalFileSystem \<Rightarrow> FilePool \<Rightarrow> string \<Rightarrow> 'fs \<Rightarrow> (u64 \<times> 'fs) option" where
  "CountAllocatedNum fsptr pool path fs =
    (if [] = path then Some (0, fs)
     else
       case ListDir fsptr fs path of (r, files, fs1) \<Rightarrow>
         if 0 \<noteq> r then Some (0, fs1)
         else
           map_option (\<lambda>(n, fs'). (ucast n, fs'))
             (CountAllocatedNum_walk fsptr (isAllocated (poolOpt pool))
                (map (Pair path) files) 0 fs1))"

text \<open>
  The body of the loop of \<open>ScanInternal\<close> for one directory entry: whether the scan
  goes on (\<open>False\<close> at a \<open>return false\<close>), and \<open>maxnum\<close>, the pool and the file
  system after it. The loop stops with \<open>False\<close> at the first illegal entry, keeping
  what it has pushed so far.
\<close>

definition ScanInternal_entry ::
  "'fs LocalFileSystem \<Rightarrow> string \<Rightarrow> u64 \<Rightarrow> FilePool \<Rightarrow> 'fs \<Rightarrow> bool \<times> u64 \<times> FilePool \<times> 'fs" where
  "ScanInternal_entry fsptr iter maxnum pool fs =
    (let isCleaned = StringEndsWith iter kCleanChunkSuffix;
         chunkNum' = (if isCleaned then take (length iter - length kCleanChunkSuffix) iter
                     else iter)
     in
       if \<not> list_all isdigit chunkNum' then (False, maxnum, pool, fs)
       else
         let filepath = currentdir pool @ ''/'' @ iter in
         case FileExists fsptr fs filepath of (ex, fs1) \<Rightarrow>
           if \<not> ex then (False, maxnum, pool, fs1)
           else
             case Open fsptr fs1 filepath O_RDWR of (fd, fs2) \<Rightarrow>
               if fd < 0 then (False, maxnum, pool, fs2)
               else
                 case Fstat fsptr fs2 fd of (ret, st_size, fs3) \<Rightarrow>
                   if ret \<noteq> 0 \<or> st_size \<noteq> sint (chunklen (poolOpt pool))
                   then (False, maxnum, pool, snd (Close fsptr fs3 fd))
                   else
                     let fs4 = snd (Close fsptr fs3 fd);
                         filenum = atoll chunkNum'
                     in
                       if filenum \<noteq> 0 then
                         (True,
                          if filenum > maxnum then filenum else maxnum,
                          if isCleaned
                          then pool\<lparr>cleanChunks := cleanChunks pool @ [filenum]\<rparr>
                          else pool\<lparr>dirtyChunks := dirtyChunks pool @ [filenum]\<rparr>,
                          fs4)
                       else (True, maxnum, pool, fs4))"

fun ScanInternal_loop ::
  "'fs LocalFileSystem \<Rightarrow> string list \<Rightarrow> u64 \<Rightarrow> FilePool \<Rightarrow> 'fs
    \<Rightarrow> bool \<times> u64 \<times> FilePool \<times> 'fs" where
  "ScanInternal_loop fsptr [] maxnum pool fs = (True, maxnum, pool, fs)"
| "ScanInternal_loop fsptr (iter # tmpvec) maxnum pool fs =
    (case ScanInternal_entry fsptr iter maxnum pool fs of
       (True, maxnum', pool', fs') \<Rightarrow> ScanInternal_loop fsptr tmpvec maxnum' pool' fs'
     | (False, out) \<Rightarrow> (False, out))"

definition ScanInternal ::
  "'fs LocalFileSystem \<Rightarrow> FilePool \<Rightarrow> 'fs \<Rightarrow> (bool \<times> FilePool \<times> 'fs) option" where
  "ScanInternal fsptr pool fs =
    (case DirExists fsptr fs (currentdir pool) of (ex, fs1) \<Rightarrow>
       case (if \<not> ex then Mkdir fsptr fs1 (currentdir pool) else (0, fs1)) of (ret, fs2) \<Rightarrow>
         if ret \<noteq> 0 then Some (False, pool, fs2)
         else
           case ListDir fsptr fs2 (currentdir pool) of (ret, tmpvec, fs3) \<Rightarrow>
             if ret < 0 then Some (False, pool, fs3)
             else
               case ScanInternal_loop fsptr tmpvec 0 pool fs3 of (ok, maxnum, pool1, fs4) \<Rightarrow>
                 if \<not> ok then Some (False, pool1, fs4)
                 else
                   (case CountAllocatedNum fsptr pool1 (copysetDir (poolOpt pool1)) fs4 of
                      None \<Rightarrow> None
                    | Some (n1, fs5) \<Rightarrow>
                       (case CountAllocatedNum fsptr pool1 (recycleDir (poolOpt pool1)) fs5 of
                          None \<Rightarrow> None
                        | Some (n2, fs6) \<Rightarrow>
                            Some (True,
                              pool1\<lparr>currentmaxfilenum := maxnum + 1,
                                    currentState := (currentState pool1)\<lparr>
                                      chunkNum := of_nat (length tmpvec) + n1 + n2,
                                      dirtyChunksLeft := of_nat (length (dirtyChunks pool1)),
                                      cleanChunksLeft := of_nat (length (cleanChunks pool1)),
                                      preallocatedChunksLeft :=
                                        of_nat (length (dirtyChunks pool1)) +
                                        of_nat (length (cleanChunks pool1))\<rparr>\<rparr>,
                              fs6))))"

subsection \<open>The manifest\<close>

record FilePoolMeta =
  meta_chunkSize :: u32
  meta_metaPageSize :: u32
  meta_hasBlockSize :: bool
  meta_blockSize :: u32
  meta_filePoolPath :: string

text \<open>
  The manifest is a JSON object of numbers and strings. \<open>Json::Value\<close> is modelled
  by a list of members; \<open>json_get\<close> is \<open>value[key]\<close> (null for a missing member) and
  \<open>json_set\<close> is \<open>root[key] = v\<close>. \<open>asUInt\<close> and \<open>asString\<close> throw on a value
  they cannot convert: the model's value is \<open>None\<close> there.
\<close>

datatype JsonValue = JNull | JInt int | JStr string

type_synonym JsonObject = "(string \<times> JsonValue) list"

definition json_get :: "JsonObject \<Rightarrow> string \<Rightarrow> JsonValue" where
  "json_get obj key = (case map_of obj key of None \<Rightarrow> JNull | Some v \<Rightarrow> v)"

definition json_set :: "string \<Rightarrow> JsonValue \<Rightarrow> JsonObject \<Rightarrow> JsonObject" where
  "json_set key v obj = filter (\<lambda>e. fst e \<noteq> key) obj @ [(key, v)]"

fun asUInt :: "JsonValue \<Rightarrow> u32 option" where
  "asUInt JNull = Some 0"
| "asUInt (JInt n) = (if 0 \<le> n \<and> n < 2 ^ 32 then Some (word_of_int n) else None)"
| "asUInt (JStr s) = None"

fun asString :: "JsonValue \<Rightarrow> string option" where
  "asString JNull = Some []"
| "asString (JInt n) = Some ((if n < 0 then ''-'' else []) @ decimal (nat \<bar>n\<bar>))"
| "asString (JStr s) = Some s"

text \<open>
  What the manifest code takes from outside this file: \<open>CRC32\<close>, \<open>kFilePoolMagic\<close>
  and \<open>kDefaultBlockSize\<close> of \<open>src/common\<close>, and the writer and the reader of the
  JSON library (\<open>toStyledString\<close>, and \<open>CharReader::parse\<close>, which gives no object on
  a text it cannot read). They are parameters of the model.
\<close>

record Library =
  CRC32 :: "string \<Rightarrow> u32"
  kFilePoolMagic :: string
  kDefaultBlockSize :: u32
  toStyledString :: "JsonObject \<Rightarrow> string"
  parse :: "string \<Rightarrow> JsonObject option"

definition kFileSize :: string where "kFileSize = ''chunkSize''"
definition kMetaPageSize :: string where "kMetaPageSize = ''metaPageSize''"
definition kFilePoolPath :: string where "kFilePoolPath = ''chunkfilepool_path''"
definition kCRC :: string where "kCRC = ''crc''"
definition kBlockSize :: string where "kBlockSize = ''blockSize''"
definition kPersistSize :: u32 where "kPersistSize = 4096"

text \<open>The four bytes of a \<open>uint32_t\<close> as \<open>memcpy\<close> reads them on a little-endian host.\<close>

definition bytes_of_u32 :: "u32 \<Rightarrow> string" where
  "bytes_of_u32 w =
    [char_of (unat w), char_of (unat w div 256),
     char_of (unat w div 65536), char_of (unat w div 16777216)]"

definition Crc32 :: "Library \<Rightarrow> FilePoolMeta \<Rightarrow> u32" where
  "Crc32 lib meta =
    CRC32 lib
      (kFilePoolMagic lib @ bytes_of_u32 (meta_chunkSize meta)
       @ bytes_of_u32 (meta_metaPageSize meta)
       @ (if meta_hasBlockSize meta then bytes_of_u32 (meta_blockSize meta) else [])
       @ meta_filePoolPath meta)"

definition meta_root :: "Library \<Rightarrow> FilePoolMeta \<Rightarrow> JsonObject" where
  "meta_root lib meta =
    (let root = json_set kFileSize (JInt (uint (meta_chunkSize meta))) [];
         root = json_set kMetaPageSize (JInt (uint (meta_metaPageSize meta))) root;
         root = (if meta_hasBlockSize meta
                 then json_set kBlockSize (JInt (uint (meta_blockSize meta))) root
                 else root);
         root = json_set kFilePoolPath (JStr (meta_filePoolPath meta)) root
     in json_set kCRC (JInt (uint (Crc32 lib meta))) root)"

text \<open>
  \<open>PersistEnCodeMetaInfo\<close> copies the styled text into a zeroed buffer of
  \<open>kPersistSize\<close> bytes. A longer text is copied past the end of the buffer, which
  has no defined behaviour: the model gives no result (\<open>None\<close>) there.
\<close>

definition PersistEnCodeMetaInfo ::
  "'fs LocalFileSystem \<Rightarrow> Library \<Rightarrow> FilePoolMeta \<Rightarrow> string \<Rightarrow> 'fs \<Rightarrow> (int \<times> 'fs) option" where
  "PersistEnCodeMetaInfo fsptr lib meta persistPath fs =
    (let root = meta_root lib meta in
     case Open fsptr fs persistPath (O_RDWR OR O_CREAT OR O_SYNC) of (fd, fs1) \<Rightarrow>
       if fd < 0 then Some (- 1, fs1)
       else
         let styled = toStyledString lib root in
         if length styled > unat kPersistSize then None
         else
           let buffer = styled @ replicate (unat kPersistSize - length styled) (CHR 0x00) in
           case Write fsptr fs1 fd buffer 0 (ucast kPersistSize) of (ret, fs2) \<Rightarrow>
             if ret \<noteq> uint kPersistSize then Some (- 1, snd (Close fsptr fs2 fd))
             else Some (0, snd (Close fsptr fs2 fd)))"

text \<open>
  The block of \<open>DecodeMetaInfoFromMetaFile\<close> that reads the members (the
  \<open>do ... while (false)\<close>): whether it ran to its end (\<open>parse\<close>), the stored CRC, and
  the meta with the fields written so far.
\<close>

definition Decode_members ::
  "Library \<Rightarrow> string \<Rightarrow> FilePoolMeta \<Rightarrow> (bool \<times> u32 \<times> FilePoolMeta) option" where
  "Decode_members lib str meta =
    (case parse lib str of
       None \<Rightarrow> Some (False, 0, meta)
     | Some v \<Rightarrow>
        (if json_get v kFileSize = JNull then Some (False, 0, meta)
         else
          (case asUInt (json_get v kFileSize) of
             None \<Rightarrow> None
           | Some cs \<Rightarrow>
              (let meta1 = meta\<lparr>meta_chunkSize := cs\<rparr> in
               if json_get v kMetaPageSize = JNull then Some (False, 0, meta1)
               else
                (case asUInt (json_get v kMetaPageSize) of
                   None \<Rightarrow> None
                 | Some mps \<Rightarrow>
                    (let meta2 = meta1\<lparr>meta_metaPageSize := mps\<rparr> in
                     case (if json_get v kBlockSize \<noteq> JNull
                           then map_option
                                  (\<lambda>bs. meta2\<lparr>meta_hasBlockSize := True,
                                               meta_blockSize := bs\<rparr>)
                                  (asUInt (json_get v kBlockSize))
                           else Some (meta2\<lparr>meta_hasBlockSize := False,
                                             meta_blockSize := kDefaultBlockSize lib\<rparr>)) of
                       None \<Rightarrow> None
                     | Some meta3 \<Rightarrow>
                        (if json_get v kFilePoolPath = JNull then Some (False, 0, meta3)
                         else
                          (case asString (json_get v kFilePoolPath) of
                             None \<Rightarrow> None
                           | Some path \<Rightarrow>
                              (let meta4 = meta3\<lparr>meta_filePoolPath := path\<rparr> in
                               if json_get v kCRC = JNull then Some (False, 0, meta4)
                               else
                                (case asUInt (json_get v kCRC) of
                                   None \<Rightarrow> None
                                 | Some crcvalue \<Rightarrow> Some (True, crcvalue, meta4)))))))))))"

text \<open>
  \<open>DecodeMetaInfoFromMetaFile\<close> reads \<open>metaFileSize\<close> bytes into a zeroed buffer and
  parses it up to its first zero byte (\<open>strlen\<close>). Without a zero byte in the buffer
  \<open>strlen\<close> reads past its end: no result. The output parameter \<open>meta\<close> goes in and
  out.
\<close>

definition DecodeMetaInfoFromMetaFile ::
  "'fs LocalFileSystem \<Rightarrow> Library \<Rightarrow> string \<Rightarrow> u32 \<Rightarrow> FilePoolMeta \<Rightarrow> 'fs
    \<Rightarrow> (int \<times> FilePoolMeta \<times> 'fs) option" where
  "DecodeMetaInfoFromMetaFile fsptr lib metaFilePath metaFileSize' meta fs =
    (case Open fsptr fs metaFilePath O_RDONLY of (fd, fs1) \<Rightarrow>
       if fd < 0 then Some (- 1, meta, fs1)
       else
         case Read fsptr fs1 fd 0 (ucast metaFileSize') of (ret, bytes, fs2) \<Rightarrow>
           if ret \<noteq> sint metaFileSize' then Some (- 1, meta, snd (Close fsptr fs2 fd))
           else
             let fs3 = snd (Close fsptr fs2 fd);
                 readvalid = take (unat metaFileSize')
                               (bytes @ replicate (unat metaFileSize') (CHR 0x00))
             in
               if CHR 0x00 \<notin> set readvalid then None
               else
                 (case Decode_members lib (takeWhile (\<lambda>c. c \<noteq> CHR 0x00) readvalid) meta of
                    None \<Rightarrow> None
                  | Some (parsed, crcvalue, meta') \<Rightarrow>
                      if \<not> parsed then Some (- 1, meta', fs3)
                      else if crcvalue \<noteq> Crc32 lib meta' then Some (- 1, meta', fs3)
                      else Some (0, meta', fs3)))"

subsection \<open>Initialize\<close>

text \<open>The default-constructed \<open>FilePoolMeta\<close> that \<open>CheckValid\<close> decodes into.\<close>

definition FilePoolMeta_default :: FilePoolMeta where
  "FilePoolMeta_default =
    \<lparr>meta_chunkSize = 0, meta_metaPageSize = 0, meta_hasBlockSize = False,
     meta_blockSize = 0, meta_filePoolPath = []\<rparr>"

definition CheckValid ::
  "'fs LocalFileSystem \<Rightarrow> Library \<Rightarrow> FilePool \<Rightarrow> 'fs \<Rightarrow> (bool \<times> FilePool \<times> 'fs) option" where
  "CheckValid fsptr lib pool fs =
    (case FileExists fsptr fs (metaPath (poolOpt pool)) of (ex, fs1) \<Rightarrow>
       if \<not> ex then
         Some (True,
               pool\<lparr>currentState := (currentState pool)\<lparr>
                      st_chunkSize := fileSize (poolOpt pool),
                      st_metaPageSize := metaPageSize (poolOpt pool),
                      st_blockSize := blockSize (poolOpt pool)\<rparr>,
                    currentdir := filePoolDir (poolOpt pool)\<rparr>,
               fs1)
       else
         (case DecodeMetaInfoFromMetaFile fsptr lib (metaPath (poolOpt pool))
                (metaFileSize (poolOpt pool)) FilePoolMeta_default fs1 of
           None \<Rightarrow> None
         | Some (ret, meta, fs2) \<Rightarrow>
             if ret = - 1 then Some (False, pool, fs2)
             else
               Some (True,
                     pool\<lparr>poolOpt := (poolOpt pool)\<lparr>
                            fileSize := meta_chunkSize meta,
                            metaPageSize := meta_metaPageSize meta,
                            blockSize := meta_blockSize meta\<rparr>,
                          currentdir := meta_filePoolPath meta,
                          currentState := (currentState pool)\<lparr>
                            st_chunkSize := meta_chunkSize meta,
                            st_metaPageSize := meta_metaPageSize meta,
                            st_blockSize := meta_blockSize meta\<rparr>\<rparr>,
                     fs2)))"

text \<open>
  The pool as its constructor leaves it: empty lists, file number 0, no thread. The
  default values of the options come from the header and are a parameter; the counters
  of \<open>currentState_\<close> and \<open>formatStat_\<close> start at zero.
\<close>

definition FilePool_new :: "FilePoolOptions \<Rightarrow> FilePool" where
  "FilePool_new defaults =
    \<lparr>poolOpt = defaults, currentdir = [],
     currentState = \<lparr>st_chunkSize = 0, st_metaPageSize = 0, st_blockSize = 0, chunkNum = 0,
                     dirtyChunksLeft = 0, cleanChunksLeft = 0, preallocatedChunksLeft = 0\<rparr>,
     formatStat = \<lparr>isWrong = False, allocateChunkNum = 0, preAllocateNum = 0\<rparr>,
     dirtyChunks = [], cleanChunks = [], currentmaxfilenum = 0,
     formatAlived = False, cleanAlived = False,
     writeBuffer = replicate (unat (bytesPerWrite defaults)) (CHR 0x00),
     formatThread = NotStarted\<rparr>"

definition Initialize ::
  "'fs LocalFileSystem \<Rightarrow> Library \<Rightarrow> FilePoolOptions \<Rightarrow> FilePool \<Rightarrow> 'fs
    \<Rightarrow> (bool \<times> FilePool \<times> 'fs) option" where
  "Initialize fsptr lib cfopt pool fs =
    (let pool0 = pool\<lparr>poolOpt := cfopt\<rparr> in
     if getFileFromPool (poolOpt pool0) then
       (let pool1 = pool0\<lparr>currentdir := filePoolDir (poolOpt pool0),
                          currentState := (currentState pool0)\<lparr>
                            st_chunkSize := fileSize (poolOpt pool0),
                            st_metaPageSize := metaPageSize (poolOpt pool0)\<rparr>\<rparr>
        in case CheckValid fsptr lib pool1 fs of
             None \<Rightarrow> None
           | Some (ok, pool2, fs1) \<Rightarrow>
               if \<not> ok then Some (False, pool2, fs1)
               else
                 (case ScanInternal fsptr pool2 fs1 of
                    None \<Rightarrow> None
                  | Some (ok, pool3, fs2) \<Rightarrow>
                      if \<not> ok then Some (False, pool3, fs2)
                      else
                        (case PrepareFormat fsptr pool3 fs2 of
                           None \<Rightarrow> None
                         | Some (ok, pool4, fs3) \<Rightarrow>
                             if \<not> ok then Some (False, pool4, fs3)
                             else Some (True,
                                        pool4\<lparr>formatAlived := True, formatThread := Spawned\<rparr>,
                                        fs3))))
     else
       (let pool1 = pool0\<lparr>currentdir := filePoolDir (poolOpt pool0)\<rparr> in
        case DirExists fsptr fs (currentdir pool1) of (ex, fs1) \<Rightarrow>
          if \<not> ex then
            (case Mkdir fsptr fs1 (currentdir pool1) of (r, fs2) \<Rightarrow> Some (r = 0, pool1, fs2))
          else Some (True, pool1, fs1)))"

subsection \<open>Runs of the pool\<close>

text \<open>
  After \<open>Initialize\<close> the pool is used by the format thread, the clean thread and the
  callers of \<open>GetFile\<close> and \<open>RecycleFile\<close>. A run is a sequence of their calls, each
  taken as a whole: the first statement of \<open>FormatWorker\<close>, one pass of a
  \<open>FormatTask\<close>, a \<open>CleaningChunk\<close>, a \<open>GetFile\<close>, a \<open>RecycleFile\<close>. A call that
  cannot be made or does not return gives no state (\<open>None\<close>).
\<close>

datatype PoolCall =
    CallFormatWorker
  | CallFormatTask
  | CallCleaningChunk
  | CallGetFile string string bool
  | CallRecycleFile string

definition pool_call ::
  "'fs LocalFileSystem \<Rightarrow> PoolCall \<Rightarrow> FilePool \<Rightarrow> 'fs \<Rightarrow> (FilePool \<times> 'fs) option" where
  "pool_call fsptr c pool fs =
    (case c of
       CallFormatWorker \<Rightarrow>
         (if formatThread pool = Spawned then Some (FormatWorker_begin pool, fs) else None)
     | CallFormatTask \<Rightarrow>
         (case formatThread pool of
            Running indexOffset allocatIndex \<Rightarrow>
              (case FormatTask_body fsptr indexOffset allocatIndex pool fs of
                 (again, allocatIndex', pool', fs') \<Rightarrow>
                   Some (pool'\<lparr>formatThread := Running indexOffset allocatIndex'\<rparr>, fs'))
          | _ \<Rightarrow> None)
     | CallCleaningChunk \<Rightarrow>
         map_option (\<lambda>(r, pool', fs'). (pool', fs')) (CleaningChunk fsptr pool fs)
     | CallGetFile targetpath metapage needClean' \<Rightarrow>
         map_option (\<lambda>(r, pool', fs'). (pool', fs'))
           (GetFile fsptr targetpath metapage needClean' pool fs)
     | CallRecycleFile chunkpath \<Rightarrow>
         (case RecycleFile fsptr chunkpath pool fs of (r, pool', fs') \<Rightarrow> Some (pool', fs')))"

fun pool_run ::
  "'fs LocalFileSystem \<Rightarrow> PoolCall list \<Rightarrow> FilePool \<Rightarrow> 'fs \<Rightarrow> (FilePool \<times> 'fs) option" where
  "pool_run fsptr [] pool fs = Some (pool, fs)"
| "pool_run fsptr (c # cs) pool fs =
    (case pool_call fsptr c pool fs of
       None \<Rightarrow> None
     | Some (pool', fs') \<Rightarrow> pool_run fsptr cs pool' fs')"

subsection \<open>Invariants of the free lists\<close>

text \<open>
  The counters agree with the lists: \<open>preallocatedChunksLeft\<close> is the sum of the two
  other counters, and each of those is the length of its list (as a \<open>uint64_t\<close>, the
  type of the counters and of \<open>size()\<close>).
\<close>

definition counters_match :: "FilePool \<Rightarrow> bool" where
  "counters_match pool =
    (preallocatedChunksLeft (currentState pool) =
       dirtyChunksLeft (currentState pool) + cleanChunksLeft (currentState pool) \<and>
     dirtyChunksLeft (currentState pool) = of_nat (length (dirtyChunks pool)) \<and>
     cleanChunksLeft (currentState pool) = of_nat (length (cleanChunks pool)))"

text \<open>
  What keeps file number 0 out of the lists, with \<open>k\<close> calls still to come. Without
  a format thread the pool is disabled and the lists are empty. Before the format
  thread has taken its numbers, \<open>currentmaxfilenum_\<close> is not 0 and has room for them;
  afterwards the numbers it took start above 0 and do not wrap. In both cases
  \<open>currentmaxfilenum_\<close> has room for the \<open>k\<close> calls.
\<close>

definition numbering :: "nat \<Rightarrow> FilePool \<Rightarrow> bool" where
  "numbering k pool =
    (0 \<notin> set (dirtyChunks pool) \<and> 0 \<notin> set (cleanChunks pool) \<and>
     (case formatThread pool of
        NotStarted \<Rightarrow>
          \<not> getFileFromPool (poolOpt pool) \<and> dirtyChunks pool = [] \<and> cleanChunks pool = []
      | Spawned \<Rightarrow>
          getFileFromPool (poolOpt pool) \<and> currentmaxfilenum pool \<noteq> 0 \<and>
          unat (currentmaxfilenum pool) + unat (preAllocateNum (formatStat pool)) + k < 2 ^ 64
      | Running indexOffset allocatIndex \<Rightarrow>
          getFileFromPool (poolOpt pool) \<and> indexOffset \<noteq> 0 \<and>
          unat indexOffset + unat (preAllocateNum (formatStat pool)) < 2 ^ 64 \<and>
          unat (currentmaxfilenum pool) + k < 2 ^ 64))"

section \<open>A file system and inputs to run the model on\<close>

text \<open>
  \<open>StubFs\<close> is a file system whose calls all succeed: it lists the given names in
  every directory, reports the given size for every file and the given space for the
  disk, has every file but \<open>/meta\<close>, and keeps a log of the calls that change or open
  something. A call that fails is obtained by updating one field.
\<close>

definition StubFs :: "string list \<Rightarrow> int \<Rightarrow> FileSystemInfo \<Rightarrow> (string list) LocalFileSystem" where
  "StubFs names sz finfo =
    \<lparr>Open = (\<lambda>fs p fl. (3, fs @ [''Open '' @ p])),
     Close = (\<lambda>fs fd. (0, fs @ [''Close''])),
     Delete = (\<lambda>fs p. (0, fs @ [''Delete '' @ p])),
     Rename = (\<lambda>fs a b fl. (0, fs @ [''Rename '' @ a @ '' '' @ b])),
     Write = (\<lambda>fs fd buf off len. (uint len, fs @ [''Write''])),
     Read = (\<lambda>fs fd off len. (uint len, [], fs @ [''Read''])),
     Fsync = (\<lambda>fs fd. (0, fs @ [''Fsync''])),
     Fstat = (\<lambda>fs fd. (0, sz, fs @ [''Fstat''])),
     Fallocate = (\<lambda>fs fd m off len. (0, fs @ [''Fallocate''])),
     Statfs = (\<lambda>fs p. (0, finfo, fs @ [''Statfs '' @ p])),
     ListDir = (\<lambda>fs p. (0, names, fs @ [''List '' @ p])),
     DirExists = (\<lambda>fs p. (True, fs)),
     FileExists = (\<lambda>fs p. (p \<noteq> ''/meta'', fs)),
     Mkdir = (\<lambda>fs p. (0, fs @ [''Mkdir '' @ p]))\<rparr>"

text \<open>Options with chunks of 16 MiB, pages of 4 KiB and a pool of 64 MiB in \<open>/p\<close>.\<close>

definition options16M :: FilePoolOptions where
  "options16M =
    \<lparr>getFileFromPool = True, needClean = True, bytesPerWrite = 4096, iops4clean = 100,
     fileSize = 16777216, metaPageSize = 4096, blockSize = 4096, metaFileSize = 4096,
     filePoolSize = 67108864, allocatedByPercent = False, allocatedPercent = 80,
     formatThreadNum = 2, chunkReserved = 0, retryTimes = 5, metaPath = ''/meta'',
     filePoolDir = ''/p'', copysetDir = [], recycleDir = [], isAllocated = (\<lambda>f. False)\<rparr>"

definition disk1G :: FileSystemInfo where
  "disk1G = \<lparr>total_bytes = 1073741824, available_bytes = 1000000000\<rparr>"

definition diskFull :: FileSystemInfo where
  "diskFull = \<lparr>total_bytes = 1073741824, available_bytes = 0\<rparr>"

text \<open>
  A pool that already has two chunks and is configured for two chunks and one page
  more: \<open>filePoolSize = 2 * (fileSize + metaFileSize) + 4096\<close>.
\<close>

definition poolTwoChunks :: FilePool where
  "poolTwoChunks =
    (FilePool_new options16M)\<lparr>
       poolOpt := options16M\<lparr>filePoolSize := 33566720\<rparr>,
       currentdir := ''/p'',
       currentState := (currentState (FilePool_new options16M))\<lparr>chunkNum := 2\<rparr>\<rparr>"

text \<open>
  A file system on which \<open>Fsync\<close> fails, and one on which \<open>Rename\<close> finds its
  target present.
\<close>

definition FsyncFails :: "(string list) LocalFileSystem" where
  "FsyncFails =
    (StubFs [] 16781312 disk1G)\<lparr>Fsync := (\<lambda>fs fd. (- 1, fs @ [''Fsync'']))\<rparr>"

definition TargetExists :: "(string list) LocalFileSystem" where
  "TargetExists =
    (StubFs [] 16781312 disk1G)\<lparr>
       Rename := (\<lambda>fs a b fl. (- EEXIST, fs @ [''Rename '' @ a @ '' '' @ b]))\<rparr>"

text \<open>
  Pools in \<open>/p\<close> whose formatting is complete: an empty one, one whose only free chunk
  is the dirty chunk 5, and the latter after that chunk has been taken.
\<close>

definition poolEmpty :: FilePool where
  "poolEmpty = (FilePool_new options16M)\<lparr>currentdir := ''/p''\<rparr>"

definition poolTaken5 :: FilePool where
  "poolTaken5 = poolEmpty\<lparr>currentmaxfilenum := 6\<rparr>"

definition poolDirty5 :: FilePool where
  "poolDirty5 =
    poolEmpty\<lparr>dirtyChunks := [5],
              currentState := (currentState poolEmpty)\<lparr>dirtyChunksLeft := 1,
                                                        preallocatedChunksLeft := 1\<rparr>,
              currentmaxfilenum := 6\<rparr>"

definition page4K :: string where
  "page4K = replicate 4096 (CHR 0xAB)"

text \<open>
  A writer and a reader to run the manifest code with: one member on each line,
  \<open>key=value\<close>, a number in decimal digits and a string between quotes. The checksum
  is the sum of the bytes.
\<close>

fun write_value :: "JsonValue \<Rightarrow> string" where
  "write_value JNull = ''null''"
| "write_value (JInt n) = (if n < 0 then ''-'' else []) @ decimal (nat \<bar>n\<bar>)"
| "write_value (JStr s) = [CHR 0x22] @ s @ [CHR 0x22]"

definition write_object :: "JsonObject \<Rightarrow> string" where
  "write_object obj = concat (map (\<lambda>(k, v). k @ ''='' @ write_value v @ [CHR 0x0A]) obj)"

definition read_value :: "string \<Rightarrow> JsonValue option" where
  "read_value s =
    (if s = ''null'' then Some JNull
     else if 2 \<le> length s \<and> hd s = CHR 0x22 \<and> last s = CHR 0x22
     then Some (JStr (butlast (tl s)))
     else if s \<noteq> [] \<and> list_all isdigit s
     then Some (JInt (int (foldl (\<lambda>a c. 10 * a + (of_char c - 48)) 0 s)))
     else None)"

fun split_lines :: "string \<Rightarrow> string \<Rightarrow> string list" where
  "split_lines [] cur = (if cur = [] then [] else [cur])"
| "split_lines (c # cs) cur =
    (if c = CHR 0x0A then cur # split_lines cs [] else split_lines cs (cur @ [c]))"

definition read_member :: "string \<Rightarrow> (string \<times> JsonValue) option" where
  "read_member l =
    (let k = takeWhile (\<lambda>c. c \<noteq> CHR ''='') l;
         r = dropWhile (\<lambda>c. c \<noteq> CHR ''='') l
     in if r = [] then None else map_option (Pair k) (read_value (tl r)))"

definition read_object :: "string \<Rightarrow> JsonObject option" where
  "read_object s =
    (let ms = map read_member (split_lines s [])
     in if None \<in> set ms then None else Some (map the ms))"

definition libStub :: Library where
  "libStub =
    \<lparr>CRC32 = (\<lambda>s. of_nat (sum_list (map of_char s))), kFilePoolMagic = ''01'',
     kDefaultBlockSize = 4096, toStyledString = write_object, parse = read_object\<rparr>"

text \<open>
  A pool directory with four chunks, two of them clean, and options for a pool of six
  chunks: \<open>filePoolSize = 6 * (fileSize + metaFileSize)\<close>. \<open>poolScanned\<close> is the pool
  after \<open>Initialize\<close> there: the four chunks are in the lists, two more chunks are to
  be formatted, the next number is 5.
\<close>

definition options6 :: FilePoolOptions where
  "options6 = options16M\<lparr>filePoolSize := 100687872\<rparr>"

definition fourChunks :: "(string list) LocalFileSystem" where
  "fourChunks = StubFs [''1.clean'', ''2'', ''3.clean'', ''4''] 16781312 disk1G"

definition poolScanned :: FilePool where
  "poolScanned =
    (FilePool_new options16M)\<lparr>
       poolOpt := options6, currentdir := ''/p'',
       currentState := \<lparr>st_chunkSize = 16777216, st_metaPageSize = 4096, st_blockSize = 4096,
                        chunkNum = 4, dirtyChunksLeft = 2, cleanChunksLeft = 2,
                        preallocatedChunksLeft = 4\<rparr>,
       formatStat := \<lparr>isWrong = False, allocateChunkNum = 0, preAllocateNum = 2\<rparr>,
       dirtyChunks := [2, 4], cleanChunks := [1, 3], currentmaxfilenum := 5,
       formatAlived := True, formatThread := Spawned\<rparr>"

definition logScanned :: "string list" where
  "logScanned =
    [''List /p'',
     ''Open /p/1.clean'', ''Fstat'', ''Close'', ''Open /p/2'', ''Fstat'', ''Close'',
     ''Open /p/3.clean'', ''Fstat'', ''Close'', ''Open /p/4'', ''Fstat'', ''Close'',
     ''Statfs /p'']"

text \<open>
  A file system with one file, kept in memory: \<open>Write\<close> keeps the buffer it is given
  and \<open>Read\<close> gives it back. Two manifests: one with a block size of its own, and one
  without a block size (\<open>hasBlockSize\<close> false, \<open>blockSize\<close> 0).
\<close>

definition MemFs :: "string LocalFileSystem" where
  "MemFs =
    \<lparr>Open = (\<lambda>fs p fl. (3, fs)),
     Close = (\<lambda>fs fd. (0, fs)),
     Delete = (\<lambda>fs p. (0, [])),
     Rename = (\<lambda>fs a b fl. (0, fs)),
     Write = (\<lambda>fs fd buf off len. (uint len, buf)),
     Read = (\<lambda>fs fd off len. (uint len, fs, fs)),
     Fsync = (\<lambda>fs fd. (0, fs)),
     Fstat = (\<lambda>fs fd. (0, int (length fs), fs)),
     Fallocate = (\<lambda>fs fd m off len. (0, fs)),
     Statfs = (\<lambda>fs p. (0, disk1G, fs)),
     ListDir = (\<lambda>fs p. (0, [], fs)),
     DirExists = (\<lambda>fs p. (True, fs)),
     FileExists = (\<lambda>fs p. (True, fs)),
     Mkdir = (\<lambda>fs p. (0, fs))\<rparr>"

definition metaBlock512 :: FilePoolMeta where
  "metaBlock512 =
    \<lparr>meta_chunkSize = 16777216, meta_metaPageSize = 4096, meta_hasBlockSize = True,
     meta_blockSize = 512, meta_filePoolPath = ''/p''\<rparr>"

definition metaLegacy :: FilePoolMeta where
  "metaLegacy =
    \<lparr>meta_chunkSize = 16777216, meta_metaPageSize = 4096, meta_hasBlockSize = False,
     meta_blockSize = 0, meta_filePoolPath = ''/p''\<rparr>"

section \<open>Properties\<close>

lemma StubFs_simps [simp]:
  "Open (StubFs n z i) = (\<lambda>fs p fl. (3, fs @ [''Open '' @ p]))"
  "Close (StubFs n z i) = (\<lambda>fs fd. (0, fs @ [''Close'']))"
  "Delete (StubFs n z i) = (\<lambda>fs p. (0, fs @ [''Delete '' @ p]))"
  "Rename (StubFs n z i) = (\<lambda>fs a b fl. (0, fs @ [''Rename '' @ a @ '' '' @ b]))"
  "Write (StubFs n z i) = (\<lambda>fs fd buf off len. (uint len, fs @ [''Write'']))"
  "Read (StubFs n z i) = (\<lambda>fs fd off len. (uint len, [], fs @ [''Read'']))"
  "Fsync (StubFs n z i) = (\<lambda>fs fd. (0, fs @ [''Fsync'']))"
  "Fstat (StubFs n z i) = (\<lambda>fs fd. (0, z, fs @ [''Fstat'']))"
  "Fallocate (StubFs n z i) = (\<lambda>fs fd m off len. (0, fs @ [''Fallocate'']))"
  "Statfs (StubFs n z i) = (\<lambda>fs p. (0, i, fs @ [''Statfs '' @ p]))"
  "ListDir (StubFs n z i) = (\<lambda>fs p. (0, n, fs @ [''List '' @ p]))"
  "DirExists (StubFs n z i) = (\<lambda>fs p. (True, fs))"
  "FileExists (StubFs n z i) = (\<lambda>fs p. (p \<noteq> ''/meta'', fs))"
  "Mkdir (StubFs n z i) = (\<lambda>fs p. (0, fs @ [''Mkdir '' @ p]))"
  by (simp_all add: StubFs_def)

subsection \<open>PrepareFormat\<close>

lemma word_div_remainder_zero:
  fixes a b n :: "'a::len word"
  assumes "b \<noteq> 0" and "a div b = n"
  shows "(a - n * b) div b = 0"
proof -
  have "a - n * b = a mod b"
    using assms(2) by (metis add_diff_cancel_left' word_mod_div_equality)
  moreover have "a mod b < b"
    using assms(1) by (simp add: word_mod_less_divisor word_neq_0_conv)
  ultimately show ?thesis
    by (simp add: word_less_nat_alt unat_div unat_eq_zero [symmetric])
qed

lemma PrepareFormat_result:
  assumes st: "Statfs fsptr fs (currentdir pool) = (0, finfo, fs1)"
    and nz: "bytesPerPage (poolOpt pool) \<noteq> 0"
  shows "PrepareFormat fsptr pool fs =
    (let fps = (if allocatedByPercent (poolOpt pool)
                then total_bytes finfo * ucast (allocatedPercent (poolOpt pool)) div 100
                else filePoolSize (poolOpt pool));
         bpp = bytesPerPage (poolOpt pool);
         n = chunkNum (currentState pool);
         pool1 = pool\<lparr>poolOpt := (poolOpt pool)\<lparr>filePoolSize := fps\<rparr>\<rparr>
     in if fps div bpp < n
        then Some (True, pool1\<lparr>formatStat := (formatStat pool)\<lparr>preAllocateNum := 0,
                                                                allocateChunkNum := 0\<rparr>\<rparr>, fs1)
        else if available_bytes finfo < fps - n * bpp then Some (False, pool1, fs1)
        else Some (True, pool1\<lparr>formatStat := (formatStat pool)\<lparr>
                           preAllocateNum := ucast ((fps - n * bpp) div bpp),
                           allocateChunkNum := 0\<rparr>\<rparr>, fs1))"
  using st nz
  by (cases "allocatedByPercent (poolOpt pool)")
     (simp_all add: PrepareFormat_def Let_def bytesPerPage_def)

lemma poolTwoChunks_simps:
  "filePoolSize (poolOpt poolTwoChunks) = 33566720"
  "bytesPerPage (poolOpt poolTwoChunks) = 16781312"
  "chunkNum (currentState poolTwoChunks) = 2"
  "allocatedByPercent (poolOpt poolTwoChunks) = False"
  "currentdir poolTwoChunks = ''/p''"
  by (simp_all add: poolTwoChunks_def FilePool_new_def options16M_def bytesPerPage_def)

text \<open>
  Claim C8, as the code has it. Let \<open>filePoolSize\<close> be the pool size after the
  percentage rule, \<open>bytesPerPage = fileSize + metaFileSize\<close> (not zero) and let
  \<open>Statfs\<close> succeed. Then \<open>PrepareFormat\<close> returns, and:
  when \<open>filePoolSize / bytesPerPage < chunkNum\<close> it records \<open>preAllocateNum = 0\<close> and
  succeeds, whatever space is available;
  when \<open>chunkNum \<le> filePoolSize / bytesPerPage\<close> (equality included) it succeeds
  exactly when \<open>available\<close> is not below
  \<open>needSpace = filePoolSize - chunkNum * bytesPerPage\<close>, and then records
  \<open>preAllocateNum = needSpace / bytesPerPage\<close>;
  at equality a success records \<open>preAllocateNum = 0\<close>.
\<close>

theorem PrepareFormat_strict_guard:
  assumes st: "Statfs fsptr fs (currentdir pool) = (0, finfo, fs1)"
    and nz: "bytesPerPage (poolOpt pool) \<noteq> 0"
  shows "\<exists>ok pool'.
    PrepareFormat fsptr pool fs = Some (ok, pool', fs1) \<and>
    filePoolSize (poolOpt pool') =
      (if allocatedByPercent (poolOpt pool)
       then total_bytes finfo * ucast (allocatedPercent (poolOpt pool)) div 100
       else filePoolSize (poolOpt pool)) \<and>
    bytesPerPage (poolOpt pool') = bytesPerPage (poolOpt pool) \<and>
    chunkNum (currentState pool') = chunkNum (currentState pool) \<and>
    (filePoolSize (poolOpt pool') div bytesPerPage (poolOpt pool') < chunkNum (currentState pool')
       \<longrightarrow> ok \<and> preAllocateNum (formatStat pool') = 0) \<and>
    (chunkNum (currentState pool') \<le> filePoolSize (poolOpt pool') div bytesPerPage (poolOpt pool')
       \<longrightarrow> (ok \<longleftrightarrow> \<not> available_bytes finfo <
                   filePoolSize (poolOpt pool') -
                   chunkNum (currentState pool') * bytesPerPage (poolOpt pool')) \<and>
           (ok \<longrightarrow> preAllocateNum (formatStat pool') =
                   ucast ((filePoolSize (poolOpt pool') -
                           chunkNum (currentState pool') * bytesPerPage (poolOpt pool'))
                          div bytesPerPage (poolOpt pool')))) \<and>
    (filePoolSize (poolOpt pool') div bytesPerPage (poolOpt pool') = chunkNum (currentState pool')
       \<and> ok \<longrightarrow> preAllocateNum (formatStat pool') = 0)"
proof -
  define fps where "fps = (if allocatedByPercent (poolOpt pool)
                then total_bytes finfo * ucast (allocatedPercent (poolOpt pool)) div 100
                else filePoolSize (poolOpt pool))"
  define bpp where "bpp = bytesPerPage (poolOpt pool)"
  define n where "n = chunkNum (currentState pool)"
  have bpp: "bpp \<noteq> 0" using nz by (simp add: bpp_def)
  have eqz: "fps div bpp = n \<Longrightarrow> (fps - n * bpp) div bpp = 0"
    using bpp by (rule word_div_remainder_zero)
  have r: "PrepareFormat fsptr pool fs =
     (let pool1 = pool\<lparr>poolOpt := (poolOpt pool)\<lparr>filePoolSize := fps\<rparr>\<rparr>
      in if fps div bpp < n
        then Some (True, pool1\<lparr>formatStat := (formatStat pool)\<lparr>preAllocateNum := 0,
                                                                allocateChunkNum := 0\<rparr>\<rparr>, fs1)
        else if available_bytes finfo < fps - n * bpp then Some (False, pool1, fs1)
        else Some (True, pool1\<lparr>formatStat := (formatStat pool)\<lparr>
                           preAllocateNum := ucast ((fps - n * bpp) div bpp),
                           allocateChunkNum := 0\<rparr>\<rparr>, fs1))"
    unfolding PrepareFormat_result [OF st nz] fps_def bpp_def n_def Let_def ..
  have b: "\<And>o'. bytesPerPage ((poolOpt pool)\<lparr>filePoolSize := o'\<rparr>) = bpp"
    by (simp add: bpp_def bytesPerPage_def)
  consider (none) "fps div bpp < n"
    | (full) "\<not> fps div bpp < n" "available_bytes finfo < fps - n * bpp"
    | (go) "\<not> fps div bpp < n" "\<not> available_bytes finfo < fps - n * bpp"
    by blast
  then show ?thesis
  proof cases
    case none
    then have "\<not> n \<le> fps div bpp" by (simp add: not_le)
    with none show ?thesis
      unfolding r fps_def [symmetric] bpp_def [symmetric] n_def [symmetric]
      by (auto simp add: b n_def [symmetric])
  next
    case full
    then have "n \<le> fps div bpp" by (simp add: not_less)
    with full show ?thesis
      unfolding r fps_def [symmetric] bpp_def [symmetric] n_def [symmetric]
      by (auto simp add: b n_def [symmetric])
  next
    case go
    then have "n \<le> fps div bpp" by (simp add: not_less)
    with go show ?thesis
      unfolding r fps_def [symmetric] bpp_def [symmetric] n_def [symmetric]
      using eqz by (auto simp add: b n_def [symmetric])
  qed
qed

text \<open>
  The claim as the specification states it fails at equality: with two chunks present,
  a pool size of two chunks and one page, and a full disk,
  \<open>filePoolSize / bytesPerPage = 2 \<le> chunkNum\<close>, and yet \<open>PrepareFormat\<close> compares
  the available space with \<open>needSpace = 4096\<close> and fails.
\<close>

theorem PrepareFormat_equal_counterexample:
  "filePoolSize (poolOpt poolTwoChunks) div bytesPerPage (poolOpt poolTwoChunks)
     \<le> chunkNum (currentState poolTwoChunks) \<and>
   PrepareFormat (StubFs [] 16781312 diskFull) poolTwoChunks [] =
     Some (False, poolTwoChunks, [''Statfs /p''])"
proof -
  have st: "Statfs (StubFs [] 16781312 diskFull) [] (currentdir poolTwoChunks) =
     (0, diskFull, [''Statfs /p''])"
    by (simp add: poolTwoChunks_simps)
  have nz: "bytesPerPage (poolOpt poolTwoChunks) \<noteq> 0"
    by (simp add: poolTwoChunks_simps)
  have "(poolOpt poolTwoChunks)\<lparr>filePoolSize := 33566720\<rparr> = poolOpt poolTwoChunks"
    by (simp add: poolTwoChunks_def FilePool_new_def options16M_def)
  then have "poolTwoChunks\<lparr>poolOpt := (poolOpt poolTwoChunks)\<lparr>filePoolSize := 33566720\<rparr>\<rparr>
      = poolTwoChunks"
    by simp
  then show ?thesis
    unfolding PrepareFormat_result [OF st nz]
    by (simp add: poolTwoChunks_simps Let_def diskFull_def)
qed

theorem PrepareFormat_strict_guard_witness:
  "Statfs (StubFs [] 16781312 diskFull) [] (currentdir poolTwoChunks) =
     (0, diskFull, [''Statfs /p'']) \<and>
   bytesPerPage (poolOpt poolTwoChunks) \<noteq> 0 \<and>
   (\<exists>pool'. PrepareFormat (StubFs [] 16781312 diskFull) poolTwoChunks [] =
       Some (False, pool', [''Statfs /p'']))"
proof -
  have st: "Statfs (StubFs [] 16781312 diskFull) [] (currentdir poolTwoChunks) =
     (0, diskFull, [''Statfs /p''])"
    by (simp add: poolTwoChunks_simps)
  have nz: "bytesPerPage (poolOpt poolTwoChunks) \<noteq> 0"
    by (simp add: poolTwoChunks_simps)
  from PrepareFormat_strict_guard [OF st nz] obtain ok pool' where
    r: "PrepareFormat (StubFs [] 16781312 diskFull) poolTwoChunks [] =
          Some (ok, pool', [''Statfs /p''])"
    and f: "filePoolSize (poolOpt pool') =
      (if allocatedByPercent (poolOpt poolTwoChunks)
       then total_bytes diskFull * ucast (allocatedPercent (poolOpt poolTwoChunks)) div 100
       else filePoolSize (poolOpt poolTwoChunks))"
     "bytesPerPage (poolOpt pool') = bytesPerPage (poolOpt poolTwoChunks)"
     "chunkNum (currentState pool') = chunkNum (currentState poolTwoChunks)"
    and g: "chunkNum (currentState pool') \<le> filePoolSize (poolOpt pool') div bytesPerPage (poolOpt pool')
       \<longrightarrow> (ok \<longleftrightarrow> \<not> available_bytes diskFull <
                   filePoolSize (poolOpt pool') -
                   chunkNum (currentState pool') * bytesPerPage (poolOpt pool')) \<and>
           (ok \<longrightarrow> preAllocateNum (formatStat pool') =
                   ucast ((filePoolSize (poolOpt pool') -
                           chunkNum (currentState pool') * bytesPerPage (poolOpt pool'))
                          div bytesPerPage (poolOpt pool')))"
    by blast
  from g have "\<not> ok" unfolding f poolTwoChunks_simps by (simp add: diskFull_def)
  with r st nz show ?thesis by auto
qed

subsection \<open>Unsigned arithmetic without overflow\<close>

lemma word_less_succ: "(x::'a::len word) \<noteq> - 1 \<Longrightarrow> x < x + 1"
  by (metis inc_less_eq_triv_imp linorder_less_linear word_le_less_eq)

lemma word_succ_nonzero: "(x::'a::len word) \<noteq> - 1 \<Longrightarrow> x + 1 \<noteq> 0"
  by (metis ab_left_minus add_minus_cancel)

lemma unat_add_no_wrap:
  "unat (x::'a::len word) + unat y < 2 ^ LENGTH('a) \<Longrightarrow> unat (x + y) = unat x + unat y"
  by (simp add: unat_add_lem)

subsection \<open>CleanChunk\<close>

lemma to_string_small:
  "to_string 1 = ''1''" "to_string 5 = ''5''" "to_string 6 = ''6''" "to_string 7 = ''7''"
  by (simp_all add: to_string_def decimal.simps)

lemma poolEmpty_simps:
  "currentdir poolEmpty = ''/p''"
  "poolOpt poolEmpty = options16M"
  "dirtyChunks poolEmpty = []"
  "cleanChunks poolEmpty = []"
  "currentmaxfilenum poolEmpty = 0"
  "formatStat poolEmpty = \<lparr>isWrong = False, allocateChunkNum = 0, preAllocateNum = 0\<rparr>"
  "writeBuffer poolEmpty = replicate 4096 (CHR 0x00)"
  by (simp_all add: poolEmpty_def FilePool_new_def options16M_def)

lemma options16M_simps:
  "getFileFromPool options16M = True"
  "chunklen options16M = 16781312"
  "bytesPerWrite options16M = 4096"
  "metaPageSize options16M = 4096"
  "retryTimes options16M = 5"
  by (simp_all add: options16M_def chunklen_def)

lemma CleanChunk_onlyMarked_returns:
  "\<exists>ret fs'. CleanChunk fsptr pool chunkid True fs = Some (ret, fs')"
  by (simp add: CleanChunk_def Let_def split: prod.splits)

text \<open>
  Claim C3 fails on the code. In the write loop of \<open>CleanChunk\<close> a failed \<open>Fsync\<close>
  returns \<open>nbytes\<close>, the result of the \<open>Write\<close> before it, which is not negative.
  Here the first \<open>Write\<close> of 4096 bytes succeeds and \<open>Fsync\<close> fails: \<open>CleanChunk\<close>
  returns 4096 without renaming the file, and \<open>CleaningChunk\<close>, which takes a result
  that is not negative for a success, moves chunk 5 to the clean list.
\<close>

theorem CleanChunk_fsync_failure_not_negative:
  "CleanChunk FsyncFails poolEmpty 5 False [] =
     Some (4096, [''Open /p/5'', ''Write'', ''Fsync'', ''Close'']) \<and>
   map_option (\<lambda>(ok, pool', fs'). (ok, dirtyChunks pool', cleanChunks pool', fs'))
     (CleaningChunk FsyncFails poolDirty5 []) =
     Some (True, [], [5], [''Open /p/5'', ''Write'', ''Fsync'', ''Close''])"
proof -
  have c: "\<And>pool. currentdir pool = ''/p'' \<Longrightarrow> poolOpt pool = options16M \<Longrightarrow>
      CleanChunk FsyncFails pool 5 False [] =
        Some (4096, [''Open /p/5'', ''Write'', ''Fsync'', ''Close''])"
    by (simp add: CleanChunk_def FsyncFails_def options16M_simps O_RDWR_def to_string_small
        CleanChunk_loop.simps)
  have "CleanChunk FsyncFails poolEmpty 5 False [] =
     Some (4096, [''Open /p/5'', ''Write'', ''Fsync'', ''Close''])"
    by (rule c) (simp_all add: poolEmpty_simps)
  moreover have "map_option (\<lambda>(ok, pool', fs'). (ok, dirtyChunks pool', cleanChunks pool', fs'))
     (CleaningChunk FsyncFails poolDirty5 []) =
     Some (True, [], [5], [''Open /p/5'', ''Write'', ''Fsync'', ''Close''])"
    by (simp add: CleaningChunk_def poolDirty5_def poolEmpty_simps c)
  ultimately show ?thesis by simp
qed

subsection \<open>GetChunk\<close>

lemma not_waiting:
  "\<not> (dirtyChunks pool = [] \<and> cleanChunks pool = []) \<Longrightarrow>
   (allocateChunkNum (formatStat pool) \<noteq> preAllocateNum (formatStat pool) \<and> \<not> wake_up pool)
     = False"
  by (simp add: wake_up_def)

text \<open>
  Claim C7. On a pool whose lists are not both empty \<open>GetChunk\<close> returns. Without
  \<open>needClean\<close> it takes the back of \<open>dirtyChunks\<close> if there is one, else the back of
  \<open>cleanChunks\<close>, and returns 0. With \<open>needClean\<close> it takes the back of
  \<open>cleanChunks\<close> if there is one; else it takes the back of \<open>dirtyChunks\<close>, calls
  \<open>CleanChunk\<close> on it with \<open>onlyMarked = true\<close>, and reports the chunk as clean (and
  returns 0) exactly when that call's result is not negative; otherwise it returns that
  result. The chunk taken leaves its list; the other list is unchanged.
\<close>

theorem GetChunk_choice:
  assumes ne: "\<not> (dirtyChunks pool = [] \<and> cleanChunks pool = [])"
  shows
    "(\<not> needClean' \<and> dirtyChunks pool \<noteq> [] \<longrightarrow>
        (\<exists>pool'. GetChunk fsptr needClean' c i pool fs =
                    Some (0, last (dirtyChunks pool), False, pool', fs) \<and>
                  dirtyChunks pool' = butlast (dirtyChunks pool) \<and>
                  cleanChunks pool' = cleanChunks pool)) \<and>
     (\<not> needClean' \<and> dirtyChunks pool = [] \<longrightarrow>
        (\<exists>pool'. GetChunk fsptr needClean' c i pool fs =
                    Some (0, last (cleanChunks pool), True, pool', fs) \<and>
                  dirtyChunks pool' = [] \<and>
                  cleanChunks pool' = butlast (cleanChunks pool))) \<and>
     (needClean' \<and> cleanChunks pool \<noteq> [] \<longrightarrow>
        (\<exists>pool'. GetChunk fsptr needClean' c i pool fs =
                    Some (0, last (cleanChunks pool), True, pool', fs) \<and>
                  dirtyChunks pool' = dirtyChunks pool \<and>
                  cleanChunks pool' = butlast (cleanChunks pool))) \<and>
     (needClean' \<and> cleanChunks pool = [] \<longrightarrow>
        (\<exists>pool' cleanRet fs'.
            dirtyChunks pool' = butlast (dirtyChunks pool) \<and> cleanChunks pool' = [] \<and>
            currentdir pool' = currentdir pool \<and> poolOpt pool' = poolOpt pool \<and>
            CleanChunk fsptr pool' (last (dirtyChunks pool)) True fs = Some (cleanRet, fs') \<and>
            GetChunk fsptr needClean' c i pool fs =
              Some (if cleanRet < 0 then cleanRet else 0, last (dirtyChunks pool),
                    \<not> cleanRet < 0, pool', fs')))"
proof -
  note nw = not_waiting [OF ne]
  have a: "\<not> needClean' \<and> dirtyChunks pool \<noteq> [] \<longrightarrow>
        (\<exists>pool'. GetChunk fsptr needClean' c i pool fs =
                    Some (0, last (dirtyChunks pool), False, pool', fs) \<and>
                  dirtyChunks pool' = butlast (dirtyChunks pool) \<and>
                  cleanChunks pool' = cleanChunks pool)"
    by (simp add: GetChunk_def nw)
  have b: "\<not> needClean' \<and> dirtyChunks pool = [] \<longrightarrow>
        (\<exists>pool'. GetChunk fsptr needClean' c i pool fs =
                    Some (0, last (cleanChunks pool), True, pool', fs) \<and>
                  dirtyChunks pool' = [] \<and>
                  cleanChunks pool' = butlast (cleanChunks pool))"
    using ne by (simp add: GetChunk_def nw)
  have c: "needClean' \<and> cleanChunks pool \<noteq> [] \<longrightarrow>
        (\<exists>pool'. GetChunk fsptr needClean' c i pool fs =
                    Some (0, last (cleanChunks pool), True, pool', fs) \<and>
                  dirtyChunks pool' = dirtyChunks pool \<and>
                  cleanChunks pool' = butlast (cleanChunks pool))"
    by (simp add: GetChunk_def nw)
  have d: "needClean' \<and> cleanChunks pool = [] \<longrightarrow>
        (\<exists>pool' cleanRet fs'.
            dirtyChunks pool' = butlast (dirtyChunks pool) \<and> cleanChunks pool' = [] \<and>
            currentdir pool' = currentdir pool \<and> poolOpt pool' = poolOpt pool \<and>
            CleanChunk fsptr pool' (last (dirtyChunks pool)) True fs = Some (cleanRet, fs') \<and>
            GetChunk fsptr needClean' c i pool fs =
              Some (if cleanRet < 0 then cleanRet else 0, last (dirtyChunks pool),
                    \<not> cleanRet < 0, pool', fs'))"
  proof (intro impI, elim conjE)
    assume n: "needClean'" and e: "cleanChunks pool = []"
    define pool' where "pool' = pool\<lparr>dirtyChunks := butlast (dirtyChunks pool),
                currentState := (currentState pool)\<lparr>
                  dirtyChunksLeft := dirtyChunksLeft (currentState pool) - 1,
                  preallocatedChunksLeft := preallocatedChunksLeft (currentState pool) - 1\<rparr>\<rparr>"
    obtain cleanRet fs' where
      cc: "CleanChunk fsptr pool' (last (dirtyChunks pool)) True fs = Some (cleanRet, fs')"
      using CleanChunk_onlyMarked_returns [of fsptr pool' "last (dirtyChunks pool)" fs]
      by blast
    have d: "dirtyChunks pool \<noteq> []" using ne e by simp
    have "GetChunk fsptr needClean' c i pool fs =
              Some (if cleanRet < 0 then cleanRet else 0, last (dirtyChunks pool),
                    \<not> cleanRet < 0, pool', fs')"
      using n e d cc by (simp add: GetChunk_def nw pool'_def [symmetric])
    moreover have "dirtyChunks pool' = butlast (dirtyChunks pool)" "cleanChunks pool' = []"
      "currentdir pool' = currentdir pool" "poolOpt pool' = poolOpt pool"
      using e by (simp_all add: pool'_def)
    ultimately show "\<exists>pool' cleanRet fs'.
            dirtyChunks pool' = butlast (dirtyChunks pool) \<and> cleanChunks pool' = [] \<and>
            currentdir pool' = currentdir pool \<and> poolOpt pool' = poolOpt pool \<and>
            CleanChunk fsptr pool' (last (dirtyChunks pool)) True fs = Some (cleanRet, fs') \<and>
            GetChunk fsptr needClean' c i pool fs =
              Some (if cleanRet < 0 then cleanRet else 0, last (dirtyChunks pool),
                    \<not> cleanRet < 0, pool', fs')"
      using cc by blast
  qed
  from a b c d show ?thesis by blast
qed

lemma CleanChunk_StubFs_marked:
  "currentdir pool = ''/p'' \<Longrightarrow>
   CleanChunk (StubFs n z i) pool 5 True [] =
     Some (0, [''Open /p/5'', ''Fallocate'', ''Rename /p/5 /p/5.clean'', ''Close''])"
  by (simp add: CleanChunk_def O_RDWR_def to_string_small kCleanChunkSuffix_def)

lemma poolDirty5_simps:
  "dirtyChunks poolDirty5 = [5]"
  "cleanChunks poolDirty5 = []"
  "currentdir poolDirty5 = ''/p''"
  "poolOpt poolDirty5 = options16M"
  "currentmaxfilenum poolDirty5 = 6"
  by (simp_all add: poolDirty5_def poolEmpty_simps)

theorem GetChunk_choice_witness:
  "\<not> (dirtyChunks poolDirty5 = [] \<and> cleanChunks poolDirty5 = []) \<and>
   (\<exists>pool'. GetChunk (StubFs [] 16781312 disk1G) True 0 False poolDirty5 [] =
       Some (0, 5, True, pool',
             [''Open /p/5'', ''Fallocate'', ''Rename /p/5 /p/5.clean'', ''Close'']) \<and>
      dirtyChunks pool' = [] \<and> cleanChunks pool' = [])"
proof -
  have ne: "\<not> (dirtyChunks poolDirty5 = [] \<and> cleanChunks poolDirty5 = [])"
    by (simp add: poolDirty5_simps)
  from GetChunk_choice [OF ne, of True "StubFs [] 16781312 disk1G" 0 False "[]"]
  obtain pool' cleanRet fs' where
    l: "dirtyChunks pool' = butlast (dirtyChunks poolDirty5)" "cleanChunks pool' = []"
    and d: "currentdir pool' = currentdir poolDirty5"
    and cc: "CleanChunk (StubFs [] 16781312 disk1G) pool' (last (dirtyChunks poolDirty5)) True []
               = Some (cleanRet, fs')"
    and g: "GetChunk (StubFs [] 16781312 disk1G) True 0 False poolDirty5 [] =
              Some (if cleanRet < 0 then cleanRet else 0, last (dirtyChunks poolDirty5),
                    \<not> cleanRet < 0, pool', fs')"
    by (auto simp: poolDirty5_simps)
  from d have "currentdir pool' = ''/p''" by (simp add: poolDirty5_simps)
  from cc CleanChunk_StubFs_marked [OF this]
  have "cleanRet = 0"
    "fs' = [''Open /p/5'', ''Fallocate'', ''Rename /p/5 /p/5.clean'', ''Close'']"
    by (simp_all add: poolDirty5_simps)
  with g l ne show ?thesis by (simp add: poolDirty5_simps)
qed

subsection \<open>GetFile\<close>

lemma GetChunk_empty:
  assumes "dirtyChunks pool = []" "cleanChunks pool = []"
    and "allocateChunkNum (formatStat pool) = preAllocateNum (formatStat pool)"
  shows "GetChunk fsptr needClean' c i pool fs =
           Some (- 1, c, if needClean' then False else i, pool, fs)"
  using assms by (simp add: GetChunk_def)

lemma GetFile_exhausted:
  assumes "getFileFromPool (poolOpt pool)"
    and "dirtyChunks pool = []" and "cleanChunks pool = []"
    and "allocateChunkNum (formatStat pool) = preAllocateNum (formatStat pool)"
  shows "GetFile_body fsptr targetpath metapage needClean' pool fs = Some (False, - 1, pool, fs)"
    and "GetFile_loop fsptr targetpath metapage needClean' (- 1) 0 pool fs =
           Some (- 1, 0, pool, fs)"
    and "GetFile fsptr targetpath metapage needClean' pool fs = Some (- 1, pool, fs)"
proof -
  show b: "GetFile_body fsptr targetpath metapage needClean' pool fs =
             Some (False, - 1, pool, fs)"
    using assms by (simp add: GetFile_body_def GetChunk_empty)
  show l: "GetFile_loop fsptr targetpath metapage needClean' (- 1) 0 pool fs =
             Some (- 1, 0, pool, fs)"
    by (subst GetFile_loop.simps) (simp add: b)
  show "GetFile fsptr targetpath metapage needClean' pool fs = Some (- 1, pool, fs)"
    by (simp add: GetFile_def l)
qed

text \<open>
  Claim C9, as the code has it. With the pool enabled, both lists empty and formatting
  complete, \<open>GetFile\<close> returns -1 from its first pass through the loop, which ends at
  the \<open>break\<close> after \<open>GetChunk\<close> has failed: no retry is used (\<open>retry\<close> is still 0,
  whatever \<open>retryTimes\<close> is), and the pool and the file system are as they were.
\<close>

theorem GetFile_pool_exhausted:
  assumes "getFileFromPool (poolOpt pool)"
    and "dirtyChunks pool = []" and "cleanChunks pool = []"
    and "allocateChunkNum (formatStat pool) = preAllocateNum (formatStat pool)"
  shows "GetFile_body fsptr targetpath metapage needClean' pool fs = Some (False, - 1, pool, fs)
       \<and> GetFile_loop fsptr targetpath metapage needClean' (- 1) 0 pool fs =
           Some (- 1, 0, pool, fs)
       \<and> GetFile fsptr targetpath metapage needClean' pool fs = Some (- 1, pool, fs)"
  by (simp add: GetFile_exhausted [OF assms])

text \<open>
  The claim as the specification states it fails: on the empty pool with
  \<open>retryTimes = 5\<close> the loop of \<open>GetFile\<close> ends with -1 and \<open>retry = 0\<close>, none of
  the five retries used.
\<close>

theorem GetFile_pool_exhausted_counterexample:
  "retryTimes (poolOpt poolEmpty) = 5 \<and>
   GetFile_loop (StubFs [] 16781312 disk1G) ''/t'' page4K False (- 1) 0 poolEmpty [] =
     Some (- 1, 0, poolEmpty, [])"
  by (simp add: GetFile_exhausted(2) poolEmpty_simps options16M_simps)

theorem GetFile_pool_exhausted_witness:
  "getFileFromPool (poolOpt poolEmpty) \<and>
   dirtyChunks poolEmpty = [] \<and> cleanChunks poolEmpty = [] \<and>
   allocateChunkNum (formatStat poolEmpty) = preAllocateNum (formatStat poolEmpty) \<and>
   GetFile (StubFs [] 16781312 disk1G) ''/t'' page4K True poolEmpty [] =
     Some (- 1, poolEmpty, [])"
proof -
  have h: "getFileFromPool (poolOpt poolEmpty)"
    "dirtyChunks poolEmpty = []" "cleanChunks poolEmpty = []"
    "allocateChunkNum (formatStat poolEmpty) = preAllocateNum (formatStat poolEmpty)"
    by (simp_all add: poolEmpty_simps options16M_simps)
  from GetFile_pool_exhausted [OF h, where fsptr = "StubFs [] 16781312 disk1G"
      and targetpath = "''/t''" and metapage = page4K and needClean' = True and fs = "[]"] h
  show ?thesis by simp
qed

text \<open>
  Claim C4. Take a pass of the loop of \<open>GetFile\<close> (\<open>retry < retryTimes\<close>) in which
  the source file was prepared (a chunk taken from the pool by \<open>GetChunk\<close>, or a file
  made by \<open>AllocateChunk\<close> when the pool is disabled) and \<open>WriteMetaPage\<close> succeeded.
  If the no-replace \<open>Rename\<close> returns \<open>-EEXIST\<close>, \<open>GetFile\<close> leaves the loop at
  once with that error: \<open>retry\<close> is not advanced, the pool is as the preparation left
  it (the chunk is in neither list), and the file system is as the failed \<open>Rename\<close>
  left it (no call follows, so the source file is not deleted). If \<open>Rename\<close> fails
  with another error, the loop goes on with \<open>retry + 1\<close>.
\<close>

theorem GetFile_target_exists:
  assumes retry: "retry < int (retryTimes (poolOpt pool))"
    and src: "(getFileFromPool (poolOpt pool) \<and>
               GetChunk fsptr needClean' 0 False pool fs = Some (r0, chunkID, isCleaned, pool1, fs1) \<and>
               srcpath = currentdir pool1 @ ''/'' @ to_string chunkID
                         @ (if isCleaned then kCleanChunkSuffix else []))
            \<or> (\<not> getFileFromPool (poolOpt pool) \<and>
               pool1 = pool\<lparr>currentmaxfilenum := currentmaxfilenum pool + 1\<rparr> \<and>
               srcpath = currentdir pool @ ''/'' @ to_string (currentmaxfilenum pool) \<and>
               AllocateChunk fsptr pool1 srcpath fs = (r0, fs1))"
    and r0: "0 \<le> r0"
    and wr: "WriteMetaPage fsptr pool1 srcpath metapage fs1 = (r1, fs2)" and r1: "0 \<le> r1"
    and rn: "Rename fsptr fs2 srcpath targetpath RENAME_NOREPLACE = (r2, fs3)"
  shows "(r2 = - EEXIST \<longrightarrow>
            GetFile_loop fsptr targetpath metapage needClean' ret retry pool fs =
              Some (- EEXIST, retry, pool1, fs3)) \<and>
         (r2 < 0 \<and> r2 \<noteq> - EEXIST \<longrightarrow>
            GetFile_loop fsptr targetpath metapage needClean' ret retry pool fs =
              GetFile_loop fsptr targetpath metapage needClean' r2 (retry + 1) pool1 fs3)"
proof -
  have body: "GetFile_body fsptr targetpath metapage needClean' pool fs =
      Some (r2 < 0 \<and> r2 \<noteq> - EEXIST, r2, pool1, fs3)"
    using src
  proof (elim disjE conjE)
    assume "getFileFromPool (poolOpt pool)"
      and "GetChunk fsptr needClean' 0 False pool fs = Some (r0, chunkID, isCleaned, pool1, fs1)"
      and "srcpath = currentdir pool1 @ ''/'' @ to_string chunkID
                         @ (if isCleaned then kCleanChunkSuffix else [])"
    then show ?thesis
      using r0 wr r1 rn
      by (cases isCleaned) (simp_all add: GetFile_body_def Let_def EEXIST_def)
  next
    assume "\<not> getFileFromPool (poolOpt pool)"
      and "pool1 = pool\<lparr>currentmaxfilenum := currentmaxfilenum pool + 1\<rparr>"
      and "srcpath = currentdir pool @ ''/'' @ to_string (currentmaxfilenum pool)"
      and "AllocateChunk fsptr pool1 srcpath fs = (r0, fs1)"
    then show ?thesis
      using r0 wr r1 rn by (simp add: GetFile_body_def Let_def EEXIST_def)
  qed
  have step: "GetFile_loop fsptr targetpath metapage needClean' ret retry pool fs =
      (if r2 < 0 \<and> r2 \<noteq> - EEXIST
       then GetFile_loop fsptr targetpath metapage needClean' r2 (retry + 1) pool1 fs3
       else Some (r2, retry, pool1, fs3))"
    using retry by (subst GetFile_loop.simps) (simp add: body)
  show ?thesis
    by (simp add: step)
qed

lemma GetChunk_poolDirty5:
  "GetChunk fsptr False 0 False poolDirty5 fs = Some (0, 5, False, poolTaken5, fs)"
  by (simp add: GetChunk_def poolDirty5_def poolTaken5_def wake_up_def poolEmpty_def
      FilePool_new_def)

lemma poolTaken5_simps:
  "currentdir poolTaken5 = ''/p''"
  "poolOpt poolTaken5 = options16M"
  "dirtyChunks poolTaken5 = []"
  "cleanChunks poolTaken5 = []"
  by (simp_all add: poolTaken5_def poolEmpty_simps)

lemma WriteMetaPage_TargetExists:
  "poolOpt pool = options16M \<Longrightarrow>
   WriteMetaPage TargetExists pool path page [] =
     (0, [''Open '' @ path, ''Write'', ''Fsync'', ''Close''])"
  by (simp add: WriteMetaPage_def TargetExists_def options16M_simps)

theorem GetFile_target_exists_witness:
  "(0::int) < int (retryTimes (poolOpt poolDirty5)) \<and>
   getFileFromPool (poolOpt poolDirty5) \<and>
   GetChunk TargetExists False 0 False poolDirty5 [] = Some (0, 5, False, poolTaken5, []) \<and>
   WriteMetaPage TargetExists poolTaken5 ''/p/5'' page4K [] =
     (0, [''Open /p/5'', ''Write'', ''Fsync'', ''Close'']) \<and>
   Rename TargetExists [''Open /p/5'', ''Write'', ''Fsync'', ''Close''] ''/p/5'' ''/t''
     RENAME_NOREPLACE =
     (- EEXIST, [''Open /p/5'', ''Write'', ''Fsync'', ''Close'', ''Rename /p/5 /t'']) \<and>
   GetFile_loop TargetExists ''/t'' page4K False (- 1) 0 poolDirty5 [] =
     Some (- EEXIST, 0, poolTaken5,
           [''Open /p/5'', ''Write'', ''Fsync'', ''Close'', ''Rename /p/5 /t'']) \<and>
   dirtyChunks poolTaken5 = [] \<and> cleanChunks poolTaken5 = []"
proof -
  have retry: "(0::int) < int (retryTimes (poolOpt poolDirty5))"
    by (simp add: poolDirty5_simps options16M_simps)
  have en: "getFileFromPool (poolOpt poolDirty5)"
    by (simp add: poolDirty5_simps options16M_simps)
  have gc: "GetChunk TargetExists False 0 False poolDirty5 [] = Some (0, 5, False, poolTaken5, [])"
    by (rule GetChunk_poolDirty5)
  have sp: "''/p/5'' = currentdir poolTaken5 @ ''/'' @ to_string 5
                        @ (if False then kCleanChunkSuffix else [])"
    by (simp add: poolTaken5_simps to_string_small)
  have wr: "WriteMetaPage TargetExists poolTaken5 ''/p/5'' page4K [] =
     (0, [''Open /p/5'', ''Write'', ''Fsync'', ''Close''])"
    by (simp add: WriteMetaPage_TargetExists poolTaken5_simps)
  have rn: "Rename TargetExists [''Open /p/5'', ''Write'', ''Fsync'', ''Close''] ''/p/5'' ''/t''
     RENAME_NOREPLACE =
     (- EEXIST, [''Open /p/5'', ''Write'', ''Fsync'', ''Close'', ''Rename /p/5 /t''])"
    by (simp add: TargetExists_def)
  have src: "(getFileFromPool (poolOpt poolDirty5) \<and>
               GetChunk TargetExists False 0 False poolDirty5 [] =
                 Some (0, 5, False, poolTaken5, []) \<and>
               ''/p/5'' = currentdir poolTaken5 @ ''/'' @ to_string 5
                         @ (if False then kCleanChunkSuffix else []))
            \<or> (\<not> getFileFromPool (poolOpt poolDirty5) \<and>
               poolTaken5 = poolDirty5\<lparr>currentmaxfilenum := currentmaxfilenum poolDirty5 + 1\<rparr> \<and>
               ''/p/5'' = currentdir poolDirty5 @ ''/'' @ to_string (currentmaxfilenum poolDirty5) \<and>
               AllocateChunk TargetExists poolTaken5 ''/p/5'' [] = (0, []))"
    using en gc sp by blast
  from GetFile_target_exists [OF retry src _ wr _ rn, of "- 1"]
  have "GetFile_loop TargetExists ''/t'' page4K False (- 1) 0 poolDirty5 [] =
     Some (- EEXIST, 0, poolTaken5,
           [''Open /p/5'', ''Write'', ''Fsync'', ''Close'', ''Rename /p/5 /t''])"
    by simp
  with retry en gc wr rn show ?thesis by (simp add: poolTaken5_simps)
qed

subsection \<open>RecycleFile\<close>

text \<open>
  Claim C5. With the pool enabled, let \<open>RecycleFile\<close> open the file, find by \<open>Fstat\<close>
  the size \<open>chunklen = fileSize + metaPageSize\<close> (the 32-bit sum the code compares
  with), and let the \<open>Rename\<close> to \<open>currentdir/<currentmaxfilenum + 1>\<close> succeed.
  Then \<open>RecycleFile\<close> returns 0, \<open>currentmaxfilenum\<close> is one more than before, that
  new number is pushed at the back of \<open>dirtyChunks\<close>, \<open>dirtyChunksLeft\<close> and
  \<open>preallocatedChunksLeft\<close> are one more than before, and the clean list and its
  counter are unchanged. The number is fresh: if no number in the lists exceeds
  \<open>currentmaxfilenum\<close> and the counter does not wrap, it is in neither list.
\<close>

theorem RecycleFile_pushes_next_number:
  assumes en: "getFileFromPool (poolOpt pool)"
    and op: "Open fsptr fs chunkpath O_RDWR = (fd, fs1)" and fd: "0 \<le> fd"
    and st: "Fstat fsptr fs1 fd = (0, sint (chunklen (poolOpt pool)), fs2)"
    and cl: "Close fsptr fs2 fd = (rc, fs3)"
    and rn: "Rename fsptr fs3 chunkpath
               (currentdir pool @ ''/'' @ to_string (currentmaxfilenum pool + 1)) 0 = (rr, fs4)"
    and rr: "0 \<le> rr"
  shows "\<exists>pool'.
      RecycleFile fsptr chunkpath pool fs = (0, pool', fs4) \<and>
      currentmaxfilenum pool' = currentmaxfilenum pool + 1 \<and>
      dirtyChunks pool' = dirtyChunks pool @ [currentmaxfilenum pool + 1] \<and>
      cleanChunks pool' = cleanChunks pool \<and>
      dirtyChunksLeft (currentState pool') = dirtyChunksLeft (currentState pool) + 1 \<and>
      preallocatedChunksLeft (currentState pool') =
        preallocatedChunksLeft (currentState pool) + 1 \<and>
      cleanChunksLeft (currentState pool') = cleanChunksLeft (currentState pool) \<and>
      (list_all (\<lambda>n. n \<le> currentmaxfilenum pool) (dirtyChunks pool @ cleanChunks pool) \<and>
       currentmaxfilenum pool \<noteq> - 1 \<longrightarrow>
         currentmaxfilenum pool + 1 \<notin> set (dirtyChunks pool) \<union> set (cleanChunks pool))"
proof -
  have fresh: "list_all (\<lambda>n. n \<le> currentmaxfilenum pool) (dirtyChunks pool @ cleanChunks pool) \<and>
       currentmaxfilenum pool \<noteq> - 1 \<longrightarrow>
         currentmaxfilenum pool + 1 \<notin> set (dirtyChunks pool) \<union> set (cleanChunks pool)"
  proof (intro impI, elim conjE)
    assume le: "list_all (\<lambda>n. n \<le> currentmaxfilenum pool) (dirtyChunks pool @ cleanChunks pool)"
      and nw: "currentmaxfilenum pool \<noteq> - 1"
    from nw have lt: "currentmaxfilenum pool < currentmaxfilenum pool + 1"
      by (rule word_less_succ)
    show "currentmaxfilenum pool + 1 \<notin> set (dirtyChunks pool) \<union> set (cleanChunks pool)"
    proof
      assume "currentmaxfilenum pool + 1 \<in> set (dirtyChunks pool) \<union> set (cleanChunks pool)"
      with le have "currentmaxfilenum pool + 1 \<le> currentmaxfilenum pool"
        by (auto simp: list_all_iff)
      with lt show False by simp
    qed
  qed
  show ?thesis
    using en op fd st cl rn rr fresh by (simp add: RecycleFile_def Let_def)
qed

theorem RecycleFile_pushes_next_number_witness:
  "getFileFromPool (poolOpt poolDirty5) \<and>
   Open (StubFs [] 16781312 disk1G) [] ''/t'' O_RDWR = (3, [''Open /t'']) \<and>
   Fstat (StubFs [] 16781312 disk1G) [''Open /t''] 3 =
     (0, sint (chunklen (poolOpt poolDirty5)), [''Open /t'', ''Fstat'']) \<and>
   (\<exists>pool'. RecycleFile (StubFs [] 16781312 disk1G) ''/t'' poolDirty5 [] =
       (0, pool', [''Open /t'', ''Fstat'', ''Close'', ''Rename /t /p/7'']) \<and>
      currentmaxfilenum pool' = 7 \<and> dirtyChunks pool' = [5, 7] \<and>
      7 \<notin> set (dirtyChunks poolDirty5) \<union> set (cleanChunks poolDirty5))"
proof -
  have en: "getFileFromPool (poolOpt poolDirty5)"
    by (simp add: poolDirty5_simps options16M_simps)
  have op: "Open (StubFs [] 16781312 disk1G) [] ''/t'' O_RDWR = (3, [''Open /t''])"
    by simp
  have st: "Fstat (StubFs [] 16781312 disk1G) [''Open /t''] 3 =
     (0, sint (chunklen (poolOpt poolDirty5)), [''Open /t'', ''Fstat''])"
    by (simp add: poolDirty5_simps options16M_simps)
  have cl: "Close (StubFs [] 16781312 disk1G) [''Open /t'', ''Fstat''] 3 =
     (0, [''Open /t'', ''Fstat'', ''Close''])"
    by simp
  have rn: "Rename (StubFs [] 16781312 disk1G) [''Open /t'', ''Fstat'', ''Close''] ''/t''
               (currentdir poolDirty5 @ ''/'' @ to_string (currentmaxfilenum poolDirty5 + 1)) 0
            = (0, [''Open /t'', ''Fstat'', ''Close'', ''Rename /t /p/7''])"
    by (simp add: poolDirty5_simps to_string_small)
  from RecycleFile_pushes_next_number [OF en op _ st cl rn]
  obtain pool' where
    "RecycleFile (StubFs [] 16781312 disk1G) ''/t'' poolDirty5 [] =
       (0, pool', [''Open /t'', ''Fstat'', ''Close'', ''Rename /t /p/7''])"
    "currentmaxfilenum pool' = currentmaxfilenum poolDirty5 + 1"
    "dirtyChunks pool' = dirtyChunks poolDirty5 @ [currentmaxfilenum poolDirty5 + 1]"
    "list_all (\<lambda>n. n \<le> currentmaxfilenum poolDirty5)
        (dirtyChunks poolDirty5 @ cleanChunks poolDirty5) \<and>
       currentmaxfilenum poolDirty5 \<noteq> - 1 \<longrightarrow>
         currentmaxfilenum poolDirty5 + 1
           \<notin> set (dirtyChunks poolDirty5) \<union> set (cleanChunks poolDirty5)"
    by auto
  then show ?thesis
    using en op st by (simp add: poolDirty5_simps)
qed

subsection \<open>Initialize on a directory with four chunks\<close>

lemma options6_simps:
  "getFileFromPool options6 = True"
  "chunklen options6 = 16781312"
  "bytesPerPage options6 = 16781312"
  "metaPageSize options6 = 4096"
  "fileSize options6 = 16777216"
  "blockSize options6 = 4096"
  "retryTimes options6 = 5"
  "filePoolDir options6 = ''/p''"
  "metaPath options6 = ''/meta''"
  "copysetDir options6 = []"
  "recycleDir options6 = []"
  "filePoolSize options6 = 100687872"
  "allocatedByPercent options6 = False"
  by (simp_all add: options6_def options16M_def chunklen_def bytesPerPage_def)

lemma atoll_small:
  "atoll ''1'' = 1" "atoll ''2'' = 2" "atoll ''3'' = 3" "atoll ''4'' = 4"
  by (simp_all add: atoll_def isdigit_def)

lemma ScanInternal_entry_fourChunks:
  assumes "currentdir pool = ''/p''" and "chunklen (poolOpt pool) = 16781312"
  shows "ScanInternal_entry fourChunks ''1.clean'' 0 pool fs =
           (True, 1, pool\<lparr>cleanChunks := cleanChunks pool @ [1]\<rparr>,
            fs @ [''Open /p/1.clean'', ''Fstat'', ''Close''])"
    and "ScanInternal_entry fourChunks ''2'' 1 pool fs =
           (True, 2, pool\<lparr>dirtyChunks := dirtyChunks pool @ [2]\<rparr>,
            fs @ [''Open /p/2'', ''Fstat'', ''Close''])"
    and "ScanInternal_entry fourChunks ''3.clean'' 2 pool fs =
           (True, 3, pool\<lparr>cleanChunks := cleanChunks pool @ [3]\<rparr>,
            fs @ [''Open /p/3.clean'', ''Fstat'', ''Close''])"
    and "ScanInternal_entry fourChunks ''4'' 3 pool fs =
           (True, 4, pool\<lparr>dirtyChunks := dirtyChunks pool @ [4]\<rparr>,
            fs @ [''Open /p/4'', ''Fstat'', ''Close''])"
  using assms
  by (simp_all add: ScanInternal_entry_def fourChunks_def StringEndsWith_def
      kCleanChunkSuffix_def isdigit_def atoll_small O_RDWR_def)


lemma FilePool_new_simps:
  "poolOpt (FilePool_new d) = d"
  "currentdir (FilePool_new d) = []"
  "currentState (FilePool_new d) =
     \<lparr>st_chunkSize = 0, st_metaPageSize = 0, st_blockSize = 0, chunkNum = 0,
      dirtyChunksLeft = 0, cleanChunksLeft = 0, preallocatedChunksLeft = 0\<rparr>"
  "formatStat (FilePool_new d) = \<lparr>isWrong = False, allocateChunkNum = 0, preAllocateNum = 0\<rparr>"
  "dirtyChunks (FilePool_new d) = []"
  "cleanChunks (FilePool_new d) = []"
  "currentmaxfilenum (FilePool_new d) = 0"
  "formatAlived (FilePool_new d) = False"
  "cleanAlived (FilePool_new d) = False"
  "formatThread (FilePool_new d) = NotStarted"
  by (simp_all add: FilePool_new_def)

lemma fourChunks_simps:
  "FileExists fourChunks = (\<lambda>fs p. (p \<noteq> ''/meta'', fs))"
  "DirExists fourChunks = (\<lambda>fs p. (True, fs))"
  "ListDir fourChunks = (\<lambda>fs p. (0, [''1.clean'', ''2'', ''3.clean'', ''4''], fs @ [''List '' @ p]))"
  "Statfs fourChunks = (\<lambda>fs p. (0, disk1G, fs @ [''Statfs '' @ p]))"
  by (simp_all add: fourChunks_def)

lemma Initialize_fourChunks:
  "Initialize fourChunks libStub options6 (FilePool_new options16M) [] =
     Some (True, poolScanned, logScanned)"
proof -
  define p2 where "p2 = (FilePool_new options16M)\<lparr>
       poolOpt := options6, currentdir := ''/p'',
       currentState := \<lparr>st_chunkSize = 16777216, st_metaPageSize = 4096, st_blockSize = 4096,
                        chunkNum = 0, dirtyChunksLeft = 0, cleanChunksLeft = 0,
                        preallocatedChunksLeft = 0\<rparr>\<rparr>"
  define p3 where "p3 = p2\<lparr>
       currentState := \<lparr>st_chunkSize = 16777216, st_metaPageSize = 4096, st_blockSize = 4096,
                        chunkNum = 4, dirtyChunksLeft = 2, cleanChunksLeft = 2,
                        preallocatedChunksLeft = 4\<rparr>,
       dirtyChunks := [2, 4], cleanChunks := [1, 3], currentmaxfilenum := 5\<rparr>"
  have cv: "CheckValid fourChunks libStub
      ((FilePool_new options16M)\<lparr>poolOpt := options6, currentdir := ''/p'',
          currentState := \<lparr>st_chunkSize = 16777216, st_metaPageSize = 4096,
             st_blockSize = 0, chunkNum = 0, dirtyChunksLeft = 0, cleanChunksLeft = 0,
             preallocatedChunksLeft = 0\<rparr>\<rparr>) [] = Some (True, p2, [])"
    by (simp add: CheckValid_def fourChunks_simps options6_simps FilePool_new_simps p2_def)
  have p2: "currentdir p2 = ''/p''" "poolOpt p2 = options6" "dirtyChunks p2 = []"
    "cleanChunks p2 = []"
    "currentState p2 = \<lparr>st_chunkSize = 16777216, st_metaPageSize = 4096, st_blockSize = 4096,
                        chunkNum = 0, dirtyChunksLeft = 0, cleanChunksLeft = 0,
                        preallocatedChunksLeft = 0\<rparr>"
    by (simp_all add: p2_def FilePool_new_simps)
  have lp: "ScanInternal_loop fourChunks [''1.clean'', ''2'', ''3.clean'', ''4''] 0 p2 [''List /p''] =
      (True, 4, p2\<lparr>dirtyChunks := [2, 4], cleanChunks := [1, 3]\<rparr>,
       [''List /p'',
        ''Open /p/1.clean'', ''Fstat'', ''Close'', ''Open /p/2'', ''Fstat'', ''Close'',
        ''Open /p/3.clean'', ''Fstat'', ''Close'', ''Open /p/4'', ''Fstat'', ''Close''])"
    by (simp add: ScanInternal_entry_fourChunks p2 options6_simps)
  have sc: "ScanInternal fourChunks p2 [] = Some (True, p3,
       [''List /p'',
        ''Open /p/1.clean'', ''Fstat'', ''Close'', ''Open /p/2'', ''Fstat'', ''Close'',
        ''Open /p/3.clean'', ''Fstat'', ''Close'', ''Open /p/4'', ''Fstat'', ''Close''])"
    by (simp add: ScanInternal_def fourChunks_simps p2 lp CountAllocatedNum_def options6_simps
        p3_def del: ScanInternal_loop.simps)
  have p3: "currentdir p3 = ''/p''" "poolOpt p3 = options6"
    "chunkNum (currentState p3) = 4"
    "formatStat p3 = \<lparr>isWrong = False, allocateChunkNum = 0, preAllocateNum = 0\<rparr>"
    by (simp_all add: p3_def p2_def FilePool_new_simps)
  have pf: "PrepareFormat fourChunks p3
       [''List /p'',
        ''Open /p/1.clean'', ''Fstat'', ''Close'', ''Open /p/2'', ''Fstat'', ''Close'',
        ''Open /p/3.clean'', ''Fstat'', ''Close'', ''Open /p/4'', ''Fstat'', ''Close''] =
     Some (True, p3\<lparr>formatStat := \<lparr>isWrong = False, allocateChunkNum = 0, preAllocateNum = 2\<rparr>\<rparr>,
           logScanned)"
    by (simp add: PrepareFormat_def fourChunks_simps p3 options6_simps disk1G_def
        logScanned_def Let_def)
  have "Initialize fourChunks libStub options6 (FilePool_new options16M) [] =
     Some (True,
           p3\<lparr>formatStat := \<lparr>isWrong = False, allocateChunkNum = 0, preAllocateNum = 2\<rparr>,
              formatAlived := True, formatThread := Spawned\<rparr>,
           logScanned)"
    by (simp add: Initialize_def Let_def options6_simps FilePool_new_simps cv sc pf)
  then show ?thesis
    by (simp add: poolScanned_def p3_def p2_def)
qed


lemma poolScanned_simps:
  "poolOpt poolScanned = options6"
  "currentdir poolScanned = ''/p''"
  "currentState poolScanned =
     \<lparr>st_chunkSize = 16777216, st_metaPageSize = 4096, st_blockSize = 4096,
      chunkNum = 4, dirtyChunksLeft = 2, cleanChunksLeft = 2, preallocatedChunksLeft = 4\<rparr>"
  "formatStat poolScanned = \<lparr>isWrong = False, allocateChunkNum = 0, preAllocateNum = 2\<rparr>"
  "dirtyChunks poolScanned = [2, 4]"
  "cleanChunks poolScanned = [1, 3]"
  "currentmaxfilenum poolScanned = 5"
  "formatAlived poolScanned = True"
  "formatThread poolScanned = Spawned"
  by (simp_all add: poolScanned_def)

lemma AllocateChunk_StubFs:
  "AllocateChunk (StubFs n z i) pool path fs =
     (0, fs @ [''Open '' @ path, ''Fallocate'', ''Write'', ''Fsync'', ''Close''])"
  by (simp add: AllocateChunk_def)

lemma WriteMetaPage_StubFs:
  "metaPageSize (poolOpt pool) = 4096 \<Longrightarrow>
   WriteMetaPage (StubFs n z i) pool src page fs =
     (0, fs @ [''Open '' @ src, ''Write'', ''Fsync'', ''Close''])"
  by (simp add: WriteMetaPage_def)

lemma to_string_digits:
  "to_string 2 = ''2''" "to_string 4 = ''4''" "to_string 8 = ''8''"
  by (simp_all add: to_string_def decimal.simps)

lemma run_format_get_recycle:
  "map_option (\<lambda>(pool, fs). (dirtyChunks pool, cleanChunks pool, currentmaxfilenum pool))
     (pool_run fourChunks
        [CallFormatWorker, CallFormatTask, CallGetFile ''/t'' page4K False, CallRecycleFile ''/t'']
        poolScanned logScanned) =
   Some ([2, 8], [1, 3, 5], 8)"
  by (simp add: pool_call_def FormatWorker_begin_def FormatTask_body_def poolScanned_simps
      fourChunks_def AllocateChunk_StubFs WriteMetaPage_StubFs to_string_small to_string_digits
      GetFile_def GetFile_loop.simps GetFile_body_def GetChunk_def wake_up_def RecycleFile_def
      options6_simps kCleanChunkSuffix_def RENAME_NOREPLACE_def EEXIST_def O_RDWR_def Let_def)

subsection \<open>The counters of the lists\<close>

lemma of_nat_length_butlast:
  "xs \<noteq> [] \<Longrightarrow> (of_nat (length xs - Suc 0) :: 'a::len word) = of_nat (length xs) - 1"
  by (cases xs) simp_all

lemma popBack_counters:
  "counters_match pool \<Longrightarrow> counters_match (snd (popBack l pool))"
  by (cases l) (simp_all add: counters_match_def of_nat_length_butlast)

lemma pushBack_counters:
  "counters_match pool \<Longrightarrow> counters_match (pushBack l c pool)"
  by (cases l) (simp_all add: counters_match_def)

lemma pop_counters:
  "counters_match pool \<Longrightarrow> pop l b (c, i, pool) = (r, c', i', pool') \<Longrightarrow> counters_match pool'"
  by (cases l) (auto simp: counters_match_def of_nat_length_butlast split: if_splits)

lemma CleaningChunk_counters:
  "counters_match pool \<Longrightarrow> CleaningChunk fsptr pool fs = Some (r, pool', fs') \<Longrightarrow>
   counters_match pool'"
  unfolding CleaningChunk_def
  using popBack_counters [of pool DirtyChunks]
  by (auto simp del: popBack.simps pushBack.simps
      split: prod.splits if_splits option.splits intro: pushBack_counters)

lemma GetChunk_counters:
  "counters_match pool \<Longrightarrow> GetChunk fsptr n c i pool fs = Some (r, c', i', pool', fs') \<Longrightarrow>
   counters_match pool'"
  unfolding GetChunk_def
  by (auto simp del: pop.simps
      split: if_splits prod.splits bool.splits option.splits dest: pop_counters)

lemma counters_match_frame [simp]:
  "counters_match (pool\<lparr>currentmaxfilenum := n\<rparr>) = counters_match pool"
  "counters_match (pool\<lparr>formatThread := t\<rparr>) = counters_match pool"
  "counters_match (pool\<lparr>formatAlived := a\<rparr>) = counters_match pool"
  "counters_match (pool\<lparr>poolOpt := opt\<rparr>) = counters_match pool"
  "counters_match (pool\<lparr>currentdir := d\<rparr>) = counters_match pool"
  "counters_match (pool\<lparr>formatStat := f\<rparr>) = counters_match pool"
  by (simp_all add: counters_match_def)

lemma GetFile_body_counters:
  "counters_match pool \<Longrightarrow> GetFile_body fsptr t m n pool fs = Some (b, r, pool', fs') \<Longrightarrow>
   counters_match pool'"
  unfolding GetFile_body_def Let_def
  by (auto split: if_splits prod.splits option.splits dest: GetChunk_counters)

lemma GetFile_loop_preserves:
  "(\<And>pool fs b r pool' fs'.
      P pool \<Longrightarrow> GetFile_body fsptr t m n pool fs = Some (b, r, pool', fs') \<Longrightarrow> P pool') \<Longrightarrow>
   P pool \<Longrightarrow> GetFile_loop fsptr t m n ret retry pool fs = Some (r, k, pool', fs') \<Longrightarrow>
   P pool'"
proof (induction fsptr t m n ret retry pool fs rule: GetFile_loop.induct)
  case (1 fsptr t m n ret retry pool fs)
  note body = "1.prems"(1)
  show ?case
  proof (cases "retry < int (retryTimes (poolOpt pool))")
    case False
    with "1.prems"(2,3) show ?thesis by (simp add: GetFile_loop.simps)
  next
    case True
    with "1.prems"(3) obtain again r1 p1 fs1 where
      b: "GetFile_body fsptr t m n pool fs = Some (again, r1, p1, fs1)"
      by (auto simp: GetFile_loop.simps split: option.splits)
    from body [OF "1.prems"(2) b] have p1: "P p1" .
    show ?thesis
    proof (cases again)
      case True
      with \<open>retry < int (retryTimes (poolOpt pool))\<close> b "1.prems"(3)
      have "GetFile_loop fsptr t m n r1 (retry + 1) p1 fs1 = Some (r, k, pool', fs')"
        by (simp add: GetFile_loop.simps)
      from "1.IH" [OF \<open>retry < int (retryTimes (poolOpt pool))\<close> b refl refl refl True body p1 this]
      show ?thesis .
    next
      case False
      with \<open>retry < int (retryTimes (poolOpt pool))\<close> b "1.prems"(3) p1
      show ?thesis by (simp add: GetFile_loop.simps)
    qed
  qed
qed

lemma GetFile_counters:
  "counters_match pool \<Longrightarrow> GetFile fsptr t m n pool fs = Some (r, pool', fs') \<Longrightarrow>
   counters_match pool'"
  unfolding GetFile_def
  by (auto dest!: GetFile_loop_preserves [where P = counters_match, rotated 2]
      intro: GetFile_body_counters)

lemma RecycleFile_counters:
  "counters_match pool \<Longrightarrow> RecycleFile fsptr path pool fs = (r, pool', fs') \<Longrightarrow>
   counters_match pool'"
  unfolding RecycleFile_def Let_def
  by (auto split: if_splits prod.splits simp: counters_match_def)

lemma FormatTask_body_counters:
  "counters_match pool \<Longrightarrow> FormatTask_body fsptr off idx pool fs = (b, idx', pool', fs') \<Longrightarrow>
   counters_match pool'"
  unfolding FormatTask_body_def Let_def
  by (auto split: if_splits prod.splits simp: counters_match_def)

lemma pool_call_counters:
  "counters_match pool \<Longrightarrow> pool_call fsptr c pool fs = Some (pool', fs') \<Longrightarrow>
   counters_match pool'"
  unfolding pool_call_def
  by (cases c)
     (auto split: if_splits prod.splits FormatThread.splits
        simp: FormatWorker_begin_def
        dest: CleaningChunk_counters GetFile_counters RecycleFile_counters
              FormatTask_body_counters)

lemma pool_run_counters:
  "counters_match pool \<Longrightarrow> pool_run fsptr cs pool fs = Some (pool', fs') \<Longrightarrow>
   counters_match pool'"
  by (induction cs arbitrary: pool fs)
     (auto split: option.splits dest: pool_call_counters)

lemma ScanInternal_counters:
  "ScanInternal fsptr pool fs = Some (True, pool', fs') \<Longrightarrow> counters_match pool'"
  unfolding ScanInternal_def
  by (auto split: if_splits prod.splits option.splits simp: counters_match_def)

lemma PrepareFormat_counters:
  "counters_match pool \<Longrightarrow> PrepareFormat fsptr pool fs = Some (ok, pool', fs') \<Longrightarrow>
   counters_match pool'"
  unfolding PrepareFormat_def Let_def
  by (auto split: if_splits prod.splits)

lemma FilePool_new_counters: "counters_match (FilePool_new defaults)"
  by (simp add: counters_match_def FilePool_new_def)

lemma Initialize_counters:
  assumes "Initialize fsptr lib cfopt (FilePool_new defaults) fs = Some (True, pool', fs')"
  shows "counters_match pool'"
proof (cases "getFileFromPool cfopt")
  case True
  with assms obtain p2 fs1 p3 fs2 p4 fs3 where
    "ScanInternal fsptr p2 fs1 = Some (True, p3, fs2)"
    "PrepareFormat fsptr p3 fs2 = Some (True, p4, fs3)"
    "pool' = p4\<lparr>formatAlived := True, formatThread := Spawned\<rparr>"
    unfolding Initialize_def Let_def
    by (auto split: option.splits if_splits)
  then show ?thesis
    using ScanInternal_counters PrepareFormat_counters by fastforce
next
  case False
  with assms have "pool' = (FilePool_new defaults)\<lparr>poolOpt := cfopt, currentdir := filePoolDir cfopt\<rparr>"
    unfolding Initialize_def Let_def
    by (auto split: option.splits if_splits prod.splits)
  then show ?thesis by (simp add: FilePool_new_counters)
qed

text \<open>
  Claim C1, as the code has it. Let \<open>Initialize\<close> succeed on a newly constructed pool
  (this includes the scan of the pool directory), and let any run of calls follow: the
  first statement of the format worker, passes of a format task, \<open>CleaningChunk\<close>,
  \<open>GetFile\<close> (with its \<open>GetChunk\<close>) and \<open>RecycleFile\<close>, in any order, each one
  returning. In the state the run ends in, \<open>preallocatedChunksLeft\<close> is
  \<open>dirtyChunksLeft + cleanChunksLeft\<close>, which is the sum of the lengths of \<open>dirtyChunks\<close>
  and \<open>cleanChunks\<close>, and each of the two counters is the length of its list (in the
  64-bit arithmetic of the counters). The state a failed \<open>Initialize\<close> leaves is not
  covered, and a run has no \<open>UnInitialize\<close>.
\<close>

theorem counters_agree_with_lists:
  assumes "Initialize fsptr lib cfopt (FilePool_new defaults) fs0 = Some (True, pool0, fs1)"
    and "pool_run fsptr calls pool0 fs1 = Some (pool, fs)"
  shows "preallocatedChunksLeft (currentState pool) =
           dirtyChunksLeft (currentState pool) + cleanChunksLeft (currentState pool) \<and>
         dirtyChunksLeft (currentState pool) + cleanChunksLeft (currentState pool) =
           of_nat (length (dirtyChunks pool)) + of_nat (length (cleanChunks pool)) \<and>
         dirtyChunksLeft (currentState pool) = of_nat (length (dirtyChunks pool)) \<and>
         cleanChunksLeft (currentState pool) = of_nat (length (cleanChunks pool))"
  using pool_run_counters [OF Initialize_counters [OF assms(1)] assms(2)]
  by (simp add: counters_match_def)

theorem counters_agree_with_lists_witness:
  "Initialize fourChunks libStub options6 (FilePool_new options16M) [] =
     Some (True, poolScanned, logScanned) \<and>
   (\<exists>pool fs.
      pool_run fourChunks
        [CallFormatWorker, CallFormatTask, CallGetFile ''/t'' page4K False, CallRecycleFile ''/t'']
        poolScanned logScanned = Some (pool, fs) \<and>
      dirtyChunks pool = [2, 8] \<and> cleanChunks pool = [1, 3, 5] \<and>
      dirtyChunksLeft (currentState pool) = 2 \<and> cleanChunksLeft (currentState pool) = 3 \<and>
      preallocatedChunksLeft (currentState pool) = 5)"
proof -
  from run_format_get_recycle obtain pool fs where
    r: "pool_run fourChunks
          [CallFormatWorker, CallFormatTask, CallGetFile ''/t'' page4K False,
           CallRecycleFile ''/t'']
          poolScanned logScanned = Some (pool, fs)"
    and l: "dirtyChunks pool = [2, 8]" "cleanChunks pool = [1, 3, 5]"
    by fastforce
  from counters_agree_with_lists [OF Initialize_fourChunks r] l
  have "dirtyChunksLeft (currentState pool) = 2" "cleanChunksLeft (currentState pool) = 3"
    "preallocatedChunksLeft (currentState pool) = 5"
    by simp_all
  with Initialize_fourChunks r l show ?thesis by simp
qed

lemma ScanInternal_entry_one:
  assumes "currentdir pool = ''/p''" and "chunklen (poolOpt pool) = 16781312"
  shows "ScanInternal_entry (StubFs n 16781312 i) ''1'' 0 pool fs =
           (True, 1, pool\<lparr>dirtyChunks := dirtyChunks pool @ [1]\<rparr>,
            fs @ [''Open /p/1'', ''Fstat'', ''Close''])"
    and "ScanInternal_entry (StubFs n 16781312 i) ''x'' m pool fs = (False, m, pool, fs)"
  using assms
  by (simp_all add: ScanInternal_entry_def StringEndsWith_def
      kCleanChunkSuffix_def isdigit_def atoll_small O_RDWR_def)

text \<open>
  The claim as the specification states it fails for the state a failed scan leaves.
  \<open>ScanInternal\<close> pushes every chunk it accepts at once and writes the counters only at
  its end. In a directory that lists \<open>1\<close> and then \<open>x\<close> it pushes chunk 1, stops with
  \<open>false\<close> at the illegal name, and \<open>Initialize\<close> fails: the dirty list has one chunk
  and the three counters are 0.
\<close>

theorem counters_after_failed_scan_counterexample:
  "map_option
     (\<lambda>(ok, pool, fs).
        (ok, dirtyChunks pool, cleanChunks pool, dirtyChunksLeft (currentState pool),
         cleanChunksLeft (currentState pool), preallocatedChunksLeft (currentState pool)))
     (Initialize (StubFs [''1'', ''x''] 16781312 disk1G) libStub options16M
        (FilePool_new options16M) []) =
   Some (False, [1], [], 0, 0, 0)"
proof -
  define p2 where "p2 = (FilePool_new options16M)\<lparr>
       poolOpt := options16M, currentdir := ''/p'',
       currentState := \<lparr>st_chunkSize = 16777216, st_metaPageSize = 4096, st_blockSize = 4096,
                        chunkNum = 0, dirtyChunksLeft = 0, cleanChunksLeft = 0,
                        preallocatedChunksLeft = 0\<rparr>\<rparr>"
  have o: "filePoolDir options16M = ''/p''" "metaPath options16M = ''/meta''"
    "fileSize options16M = 16777216" "blockSize options16M = 4096"
    by (simp_all add: options16M_def)
  have cv: "CheckValid (StubFs [''1'', ''x''] 16781312 disk1G) libStub
      ((FilePool_new options16M)\<lparr>poolOpt := options16M, currentdir := ''/p'',
          currentState := \<lparr>st_chunkSize = 16777216, st_metaPageSize = 4096,
             st_blockSize = 0, chunkNum = 0, dirtyChunksLeft = 0, cleanChunksLeft = 0,
             preallocatedChunksLeft = 0\<rparr>\<rparr>) [] = Some (True, p2, [])"
    by (simp add: CheckValid_def o options16M_simps FilePool_new_simps p2_def)
  have p2: "currentdir p2 = ''/p''" "poolOpt p2 = options16M" "dirtyChunks p2 = []"
    "cleanChunks p2 = []"
    "currentState p2 = \<lparr>st_chunkSize = 16777216, st_metaPageSize = 4096, st_blockSize = 4096,
                        chunkNum = 0, dirtyChunksLeft = 0, cleanChunksLeft = 0,
                        preallocatedChunksLeft = 0\<rparr>"
    by (simp_all add: p2_def FilePool_new_simps)
  have lp: "ScanInternal_loop (StubFs [''1'', ''x''] 16781312 disk1G) [''1'', ''x''] 0 p2
              [''List /p''] =
      (False, 1, p2\<lparr>dirtyChunks := [1]\<rparr>, [''List /p'', ''Open /p/1'', ''Fstat'', ''Close''])"
    by (simp add: ScanInternal_entry_one p2 options16M_simps)
  have sc: "ScanInternal (StubFs [''1'', ''x''] 16781312 disk1G) p2 [] =
      Some (False, p2\<lparr>dirtyChunks := [1]\<rparr>,
            [''List /p'', ''Open /p/1'', ''Fstat'', ''Close''])"
    by (simp add: ScanInternal_def p2 lp del: ScanInternal_loop.simps)
  have "Initialize (StubFs [''1'', ''x''] 16781312 disk1G) libStub options16M
          (FilePool_new options16M) [] =
     Some (False, p2\<lparr>dirtyChunks := [1]\<rparr>,
           [''List /p'', ''Open /p/1'', ''Fstat'', ''Close''])"
    by (simp add: Initialize_def Let_def o options16M_simps FilePool_new_simps cv sc)
  then show ?thesis by (simp add: p2)
qed

subsection \<open>File number 0\<close>

lemma numbering_mono: "numbering (Suc k) pool \<Longrightarrow> numbering k pool"
  by (auto simp: numbering_def split: FormatThread.splits)

lemma not_in_butlast: "x \<notin> set xs \<Longrightarrow> x \<notin> set (butlast xs)"
  by (auto dest: in_set_butlastD)

lemma pop_numbering:
  "numbering k pool \<Longrightarrow> pop l b (c, i, pool) = (r, c', i', pool') \<Longrightarrow> numbering k pool'"
  by (cases l)
     (auto simp: numbering_def not_in_butlast split: if_splits FormatThread.splits)

lemma GetChunk_numbering:
  "numbering k pool \<Longrightarrow> GetChunk fsptr n c i pool fs = Some (r, c', i', pool', fs') \<Longrightarrow>
   numbering k pool'"
  unfolding GetChunk_def
  by (auto simp del: pop.simps
      split: if_splits prod.splits bool.splits option.splits dest: pop_numbering)

lemma numbering_disabled:
  "\<not> getFileFromPool (poolOpt pool) \<Longrightarrow>
   numbering k (pool\<lparr>currentmaxfilenum := n\<rparr>) = numbering k pool"
  by (auto simp: numbering_def split: FormatThread.splits)

lemma GetFile_body_numbering:
  "numbering k pool \<Longrightarrow> GetFile_body fsptr t m n pool fs = Some (b, r, pool', fs') \<Longrightarrow>
   numbering k pool'"
  unfolding GetFile_body_def Let_def
  by (auto split: if_splits prod.splits option.splits dest: GetChunk_numbering
      simp: numbering_disabled)

lemma GetFile_numbering:
  "numbering k pool \<Longrightarrow> GetFile fsptr t m n pool fs = Some (r, pool', fs') \<Longrightarrow>
   numbering k pool'"
  unfolding GetFile_def
  by (auto dest!: GetFile_loop_preserves [where P = "numbering k", rotated 2]
      intro: GetFile_body_numbering)

lemma popBack_numbering:
  "numbering k pool \<Longrightarrow> numbering k (snd (popBack l pool))"
  by (cases l)
     (auto simp: numbering_def not_in_butlast split: if_splits FormatThread.splits)

lemma popBack_frame:
  "formatThread (snd (popBack l pool)) = formatThread pool"
  "poolOpt (snd (popBack l pool)) = poolOpt pool"
  by (cases l; simp)+

lemma popBack_DirtyChunks_nonzero:
  "fst (popBack DirtyChunks pool) \<noteq> 0 \<Longrightarrow> formatThread pool \<noteq> NotStarted \<or> \<not> numbering k pool"
  by (auto simp: numbering_def split: FormatThread.splits)

lemma pushBack_numbering:
  "numbering k pool \<Longrightarrow> c \<noteq> 0 \<Longrightarrow> formatThread pool \<noteq> NotStarted \<Longrightarrow>
   numbering k (pushBack l c pool)"
  by (cases l) (auto simp: numbering_def split: FormatThread.splits)

lemma CleaningChunk_numbering:
  assumes n: "numbering k pool" and c: "CleaningChunk fsptr pool fs = Some (r, pool', fs')"
  shows "numbering k pool'"
proof (cases "fst (popBack DirtyChunks pool) = 0")
  case True
  with c have "pool' = snd (popBack DirtyChunks pool)"
    unfolding CleaningChunk_def by (auto simp del: popBack.simps split: prod.splits)
  with n show ?thesis by (simp add: popBack_numbering del: popBack.simps)
next
  case False
  with n have t: "formatThread (snd (popBack DirtyChunks pool)) \<noteq> NotStarted"
    using popBack_DirtyChunks_nonzero [of pool k] by (simp add: popBack_frame del: popBack.simps)
  from False c obtain l where
    "pool' = pushBack l (fst (popBack DirtyChunks pool)) (snd (popBack DirtyChunks pool))"
    unfolding CleaningChunk_def
    by (auto simp del: popBack.simps pushBack.simps split: prod.splits option.splits if_splits)
  with False t popBack_numbering [OF n, of DirtyChunks] show ?thesis
    by (simp add: pushBack_numbering del: popBack.simps pushBack.simps)
qed

lemma unat_succ_room: "unat (x::64 word) + 1 < 2 ^ 64 \<Longrightarrow> unat (x + 1) = unat x + 1"
  using unat_add_lem [of x 1] by simp

lemma succ_nonzero_room: "unat (x::64 word) + 1 < 2 ^ 64 \<Longrightarrow> x + 1 \<noteq> 0"
  using unat_succ_room [of x] by auto

lemma unat_32_bound: "unat (p::32 word) < 2 ^ 32"
  using unsigned_less [of p, where 'a = nat] by simp

lemma unat_ucast_32_64: "unat (ucast (p::32 word) :: 64 word) = unat p"
proof -
  have "unat p < 2 ^ 64"
    using unat_32_bound [of p] by simp
  then show ?thesis
    by (simp add: unsigned_ucast_eq take_bit_nat_eq_self)
qed

lemma unat_add_ucast_room:
  "unat (x::64 word) + unat (p::32 word) < 2 ^ 64 \<Longrightarrow> unat (x + ucast p) = unat x + unat p"
  using unat_add_lem [of x "ucast p :: 64 word"] by (simp add: unat_ucast_32_64)

lemma index_plus_offset_nonzero:
  assumes "(offset::64 word) \<noteq> 0" and "unat offset + unat (p::32 word) < 2 ^ 64" and "i < p"
  shows "ucast i + offset \<noteq> 0"
proof -
  have "unat i < unat p" using assms(3) by (simp add: word_less_nat_alt)
  with assms(2) have "unat (offset + ucast i) = unat offset + unat i"
    by (simp add: unat_add_ucast_room)
  moreover have "unat offset \<noteq> 0" using assms(1) by (simp add: unat_eq_zero)
  ultimately have "unat (offset + ucast i) \<noteq> 0" by simp
  then show ?thesis by (auto simp: add.commute)
qed

lemma RecycleFile_cases:
  assumes "RecycleFile fsptr path pool fs = (r, pool', fs')"
  shows "pool' = pool
       \<or> (getFileFromPool (poolOpt pool) \<and>
          pool' = pool\<lparr>currentmaxfilenum := currentmaxfilenum pool + 1\<rparr>)
       \<or> (getFileFromPool (poolOpt pool) \<and>
          pool' = pushBack DirtyChunks (currentmaxfilenum pool + 1)
                    (pool\<lparr>currentmaxfilenum := currentmaxfilenum pool + 1\<rparr>))"
  using assms unfolding RecycleFile_def Let_def
  by (auto split: if_splits prod.splits)

lemma numbering_succ:
  assumes "numbering (Suc k) pool" and "getFileFromPool (poolOpt pool)"
  shows "numbering k (pool\<lparr>currentmaxfilenum := currentmaxfilenum pool + 1\<rparr>)"
    and "currentmaxfilenum pool + 1 \<noteq> 0"
    and "formatThread pool \<noteq> NotStarted"
proof -
  from assms have room: "unat (currentmaxfilenum pool) + 1 < 2 ^ 64"
    and t: "formatThread pool \<noteq> NotStarted"
    by (auto simp: numbering_def split: FormatThread.splits)
  show "currentmaxfilenum pool + 1 \<noteq> 0" using room by (rule succ_nonzero_room)
  show "formatThread pool \<noteq> NotStarted" by (rule t)
  from assms room show "numbering k (pool\<lparr>currentmaxfilenum := currentmaxfilenum pool + 1\<rparr>)"
    by (auto simp: numbering_def unat_succ_room succ_nonzero_room split: FormatThread.splits)
qed

lemma RecycleFile_numbering:
  assumes n: "numbering (Suc k) pool" and r: "RecycleFile fsptr path pool fs = (r, pool', fs')"
  shows "numbering k pool'"
  using RecycleFile_cases [OF r]
proof (elim disjE conjE)
  assume "pool' = pool"
  with n show ?thesis by (simp add: numbering_mono)
next
  assume "getFileFromPool (poolOpt pool)"
    and "pool' = pool\<lparr>currentmaxfilenum := currentmaxfilenum pool + 1\<rparr>"
  with n show ?thesis by (simp add: numbering_succ(1))
next
  assume en: "getFileFromPool (poolOpt pool)"
    and p: "pool' = pushBack DirtyChunks (currentmaxfilenum pool + 1)
                    (pool\<lparr>currentmaxfilenum := currentmaxfilenum pool + 1\<rparr>)"
  show ?thesis
    unfolding p
    using numbering_succ [OF n en]
    by (intro pushBack_numbering) simp_all
qed

lemma FormatWorker_begin_numbering:
  assumes "numbering (Suc k) pool" and "formatThread pool = Spawned"
  shows "numbering k (FormatWorker_begin pool)"
  using assms
  by (auto simp: numbering_def FormatWorker_begin_def unat_add_ucast_room)

lemma FormatTask_body_numbering:
  assumes n: "numbering k pool" and t: "formatThread pool = Running off idx"
    and b: "FormatTask_body fsptr off idx pool fs = (again, idx', pool', fs')"
  shows "numbering k (pool'\<lparr>formatThread := Running off idx'\<rparr>)"
proof -
  from n t have o: "off \<noteq> 0"
    and room: "unat off + unat (preAllocateNum (formatStat pool)) < 2 ^ 64"
    by (auto simp: numbering_def)
  have nz: "idx < preAllocateNum (formatStat pool) \<Longrightarrow> ucast idx + off \<noteq> 0"
    using o room by (rule index_plus_offset_nonzero)
  from b n t nz show ?thesis
    unfolding FormatTask_body_def Let_def
    by (auto simp: numbering_def not_le split: if_splits prod.splits)
qed

lemma pool_call_numbering:
  assumes n: "numbering (Suc k) pool" and c: "pool_call fsptr c pool fs = Some (pool', fs')"
  shows "numbering k pool'"
proof (cases c)
  case CallFormatWorker
  with c n show ?thesis
    by (auto simp: pool_call_def FormatWorker_begin_numbering split: if_splits)
next
  case CallFormatTask
  with c obtain off idx again idx' p1 where
    "formatThread pool = Running off idx"
    "FormatTask_body fsptr off idx pool fs = (again, idx', p1, fs')"
    "pool' = p1\<lparr>formatThread := Running off idx'\<rparr>"
    by (auto simp: pool_call_def split: FormatThread.splits prod.splits)
  with numbering_mono [OF n] show ?thesis
    by (simp add: FormatTask_body_numbering)
next
  case CallCleaningChunk
  with c numbering_mono [OF n] show ?thesis
    by (auto simp: pool_call_def dest: CleaningChunk_numbering)
next
  case (CallGetFile t m nc)
  with c numbering_mono [OF n] show ?thesis
    by (auto simp: pool_call_def dest: GetFile_numbering)
next
  case (CallRecycleFile path)
  with c n show ?thesis
    by (auto simp: pool_call_def split: prod.splits dest: RecycleFile_numbering)
qed

lemma pool_run_numbering:
  "numbering (length cs) pool \<Longrightarrow> pool_run fsptr cs pool fs = Some (pool', fs') \<Longrightarrow>
   numbering 0 pool'"
  by (induction cs arbitrary: pool fs)
     (auto split: option.splits dest: pool_call_numbering)

lemma unat_of_nat_small: "n < 2 ^ 64 \<Longrightarrow> unat (of_nat n :: 64 word) = n"
  by (simp add: unat_of_nat)

lemma atoll_bound: "unat (atoll s) < 2 ^ 63"
proof -
  define v where "v = foldl (\<lambda>a c. 10 * a + (of_char c - 48)) (0::nat) (takeWhile isdigit s)"
  have m: "min v (2 ^ 63 - 1) < 2 ^ 63" by simp
  then have "min v (2 ^ 63 - 1) < 2 ^ 64" by simp
  then have "unat (of_nat (min v (2 ^ 63 - 1)) :: 64 word) = min v (2 ^ 63 - 1)"
    by (rule unat_of_nat_small)
  with m show ?thesis
    unfolding atoll_def Let_def v_def [symmetric] by simp
qed

lemma ScanInternal_entry_numbers:
  assumes "ScanInternal_entry fsptr iter maxnum pool fs = (ok, maxnum', pool', fs')"
    and "0 \<notin> set (dirtyChunks pool)" and "0 \<notin> set (cleanChunks pool)"
    and "unat maxnum < 2 ^ 63"
  shows "0 \<notin> set (dirtyChunks pool') \<and> 0 \<notin> set (cleanChunks pool') \<and> unat maxnum' < 2 ^ 63 \<and>
         poolOpt pool' = poolOpt pool"
proof -
  have a: "unat (atoll x) < 9223372036854775808" for x
    using atoll_bound [of x] by simp
  have "0 \<notin> set (dirtyChunks (fst (snd (snd (ScanInternal_entry fsptr iter maxnum pool fs))))) \<and>
        0 \<notin> set (cleanChunks (fst (snd (snd (ScanInternal_entry fsptr iter maxnum pool fs))))) \<and>
        unat (fst (snd (ScanInternal_entry fsptr iter maxnum pool fs))) < 2 ^ 63 \<and>
        poolOpt (fst (snd (snd (ScanInternal_entry fsptr iter maxnum pool fs)))) = poolOpt pool"
    using assms(2,3,4)
    by (simp add: ScanInternal_entry_def Let_def a split: prod.splits)
  with assms(1) show ?thesis by simp
qed

lemma ScanInternal_loop_numbers:
  "ScanInternal_loop fsptr tmpvec maxnum pool fs = (ok, maxnum', pool', fs') \<Longrightarrow>
   0 \<notin> set (dirtyChunks pool) \<Longrightarrow> 0 \<notin> set (cleanChunks pool) \<Longrightarrow> unat maxnum < 2 ^ 63 \<Longrightarrow>
   0 \<notin> set (dirtyChunks pool') \<and> 0 \<notin> set (cleanChunks pool') \<and> unat maxnum' < 2 ^ 63 \<and>
   poolOpt pool' = poolOpt pool"
proof (induction tmpvec arbitrary: maxnum pool fs)
  case Nil
  then show ?case by simp
next
  case (Cons iter tmpvec)
  obtain ok1 m1 p1 fs1 where
    e: "ScanInternal_entry fsptr iter maxnum pool fs = (ok1, m1, p1, fs1)"
    by (metis prod_cases4)
  note n = ScanInternal_entry_numbers [OF e Cons.prems(2,3,4)]
  show ?case
  proof (cases ok1)
    case False
    with e Cons.prems(1) n show ?thesis by simp
  next
    case True
    with e Cons.prems(1)
    have "ScanInternal_loop fsptr tmpvec m1 p1 fs1 = (ok, maxnum', pool', fs')" by simp
    from Cons.IH [OF this] n show ?thesis by simp
  qed
qed

lemma ScanInternal_numbers:
  assumes "ScanInternal fsptr pool fs = Some (True, pool', fs')"
    and "dirtyChunks pool = []" and "cleanChunks pool = []"
  shows "0 \<notin> set (dirtyChunks pool') \<and> 0 \<notin> set (cleanChunks pool') \<and>
         currentmaxfilenum pool' \<noteq> 0 \<and> unat (currentmaxfilenum pool') \<le> 2 ^ 63 \<and>
         poolOpt pool' = poolOpt pool"
proof -
  from assms(1) obtain tmpvec fs3 maxnum p1 fs4 where
    l: "ScanInternal_loop fsptr tmpvec 0 pool fs3 = (True, maxnum, p1, fs4)"
    and p: "dirtyChunks pool' = dirtyChunks p1" "cleanChunks pool' = cleanChunks p1"
      "currentmaxfilenum pool' = maxnum + 1" "poolOpt pool' = poolOpt p1"
    unfolding ScanInternal_def
    by (auto split: if_splits prod.splits option.splits)
  from ScanInternal_loop_numbers [OF l] assms(2,3)
  have n: "0 \<notin> set (dirtyChunks p1)" "0 \<notin> set (cleanChunks p1)" "unat maxnum < 2 ^ 63"
    "poolOpt p1 = poolOpt pool"
    by simp_all
  from n(3) have "unat maxnum + 1 < 2 ^ 64" by simp
  then have "unat (maxnum + 1) = unat maxnum + 1" "maxnum + 1 \<noteq> 0"
    by (rule unat_succ_room, rule succ_nonzero_room)
  with n p show ?thesis by simp
qed

lemma CheckValid_frame:
  "CheckValid fsptr lib pool fs = Some (ok, pool', fs') \<Longrightarrow>
   dirtyChunks pool' = dirtyChunks pool \<and> cleanChunks pool' = cleanChunks pool \<and>
   getFileFromPool (poolOpt pool') = getFileFromPool (poolOpt pool)"
  unfolding CheckValid_def
  by (auto split: if_splits prod.splits option.splits)

lemma PrepareFormat_frame:
  "PrepareFormat fsptr pool fs = Some (ok, pool', fs') \<Longrightarrow>
   dirtyChunks pool' = dirtyChunks pool \<and> cleanChunks pool' = cleanChunks pool \<and>
   currentmaxfilenum pool' = currentmaxfilenum pool \<and>
   getFileFromPool (poolOpt pool') = getFileFromPool (poolOpt pool)"
  unfolding PrepareFormat_def Let_def
  by (auto split: if_splits prod.splits)

lemma Initialize_numbering:
  assumes i: "Initialize fsptr lib cfopt (FilePool_new defaults) fs = Some (True, pool', fs')"
    and k: "k < 2 ^ 62"
  shows "numbering k pool'"
    and "getFileFromPool cfopt \<Longrightarrow> 1 \<le> currentmaxfilenum pool'"
proof -
  have "numbering k pool' \<and> (getFileFromPool cfopt \<longrightarrow> 1 \<le> currentmaxfilenum pool')"
  proof (cases "getFileFromPool cfopt")
    case True
    define p1 where "p1 = (FilePool_new defaults)\<lparr>
        poolOpt := cfopt, currentdir := filePoolDir cfopt,
        currentState := (currentState (FilePool_new defaults))\<lparr>
          st_chunkSize := fileSize cfopt, st_metaPageSize := metaPageSize cfopt\<rparr>\<rparr>"
    have p1: "dirtyChunks p1 = []" "cleanChunks p1 = []" "getFileFromPool (poolOpt p1)"
      using True by (simp_all add: p1_def FilePool_new_def)
    from i True have "(case CheckValid fsptr lib p1 fs of
             None \<Rightarrow> None
           | Some (ok, pool2, fs1) \<Rightarrow>
               if \<not> ok then Some (False, pool2, fs1)
               else
                 (case ScanInternal fsptr pool2 fs1 of
                    None \<Rightarrow> None
                  | Some (ok, pool3, fs2) \<Rightarrow>
                      if \<not> ok then Some (False, pool3, fs2)
                      else
                        (case PrepareFormat fsptr pool3 fs2 of
                           None \<Rightarrow> None
                         | Some (ok, pool4, fs3) \<Rightarrow>
                             if \<not> ok then Some (False, pool4, fs3)
                             else Some (True,
                                        pool4\<lparr>formatAlived := True, formatThread := Spawned\<rparr>,
                                        fs3)))) = Some (True, pool', fs')"
      by (simp add: Initialize_def Let_def p1_def)
    then obtain p2 fs1 p3 fs2 p4 fs3 where
      cv: "CheckValid fsptr lib p1 fs = Some (True, p2, fs1)"
      and sc: "ScanInternal fsptr p2 fs1 = Some (True, p3, fs2)"
      and pf: "PrepareFormat fsptr p3 fs2 = Some (True, p4, fs3)"
      and p': "pool' = p4\<lparr>formatAlived := True, formatThread := Spawned\<rparr>"
      by (auto split: option.splits if_splits)
    from CheckValid_frame [OF cv] p1
    have p2: "dirtyChunks p2 = []" "cleanChunks p2 = []" "getFileFromPool (poolOpt p2)"
      by simp_all
    from ScanInternal_numbers [OF sc p2(1,2)] p2(3)
    have p3: "0 \<notin> set (dirtyChunks p3)" "0 \<notin> set (cleanChunks p3)"
      "currentmaxfilenum p3 \<noteq> 0" "unat (currentmaxfilenum p3) \<le> 2 ^ 63"
      "getFileFromPool (poolOpt p3)"
      by simp_all
    from PrepareFormat_frame [OF pf] p3
    have p4: "0 \<notin> set (dirtyChunks p4)" "0 \<notin> set (cleanChunks p4)"
      "currentmaxfilenum p4 \<noteq> 0" "unat (currentmaxfilenum p4) \<le> 2 ^ 63"
      "getFileFromPool (poolOpt p4)"
      by simp_all
    have "unat (preAllocateNum (formatStat p4)) < 2 ^ 32" by (rule unat_32_bound)
    with p4(4) k
    have "unat (currentmaxfilenum p4) + unat (preAllocateNum (formatStat p4)) + k < 2 ^ 64"
      by simp
    moreover from p4(3) have "1 \<le> currentmaxfilenum p4"
      by (simp add: word_le_nat_alt unat_eq_zero Suc_le_eq unat_gt_0)
    ultimately show ?thesis
      using p4 by (simp add: p' numbering_def)
  next
    case False
    with i have "pool' = (FilePool_new defaults)\<lparr>poolOpt := cfopt, currentdir := filePoolDir cfopt\<rparr>"
      unfolding Initialize_def Let_def
      by (auto split: option.splits if_splits prod.splits)
    with False show ?thesis by (simp add: numbering_def FilePool_new_def)
  qed
  then show "numbering k pool'" and "getFileFromPool cfopt \<Longrightarrow> 1 \<le> currentmaxfilenum pool'"
    by simp_all
qed

text \<open>
  Claim C10. Let \<open>Initialize\<close> succeed on a newly constructed pool and let a run of
  fewer than \<open>2 ^ 62\<close> calls follow (so that the 64-bit \<open>currentmaxfilenum_\<close> does not
  wrap). Then file number 0 is in neither list; with the pool enabled
  \<open>currentmaxfilenum_\<close> is at least 1 after \<open>Initialize\<close>; and the \<open>popBack\<close> of
  \<open>CleaningChunk\<close> gives 0 on the dirty list exactly when that list is empty, so the
  test \<open>0 == chunkid\<close> never drops a chunk.
\<close>

theorem zero_is_never_a_chunk:
  assumes "Initialize fsptr lib cfopt (FilePool_new defaults) fs0 = Some (True, pool0, fs1)"
    and "length calls < 2 ^ 62"
    and "pool_run fsptr calls pool0 fs1 = Some (pool, fs)"
  shows "0 \<notin> set (dirtyChunks pool) \<and> 0 \<notin> set (cleanChunks pool) \<and>
         (getFileFromPool cfopt \<longrightarrow> 1 \<le> currentmaxfilenum pool0) \<and>
         (fst (popBack DirtyChunks pool) = 0 \<longleftrightarrow> dirtyChunks pool = [])"
proof -
  from pool_run_numbering [OF Initialize_numbering(1) [OF assms(1,2)] assms(3)]
  have z: "0 \<notin> set (dirtyChunks pool)" "0 \<notin> set (cleanChunks pool)"
    by (simp_all add: numbering_def)
  from z(1) have "fst (popBack DirtyChunks pool) = 0 \<longleftrightarrow> dirtyChunks pool = []"
    by (cases "dirtyChunks pool" rule: rev_cases) auto
  with z Initialize_numbering(2) [OF assms(1,2)] show ?thesis by simp
qed

lemma run_get_get_clean:
  "map_option (\<lambda>(pool, fs). (dirtyChunks pool, cleanChunks pool))
     (pool_run fourChunks
        [CallGetFile ''/a'' page4K False, CallGetFile ''/b'' page4K False, CallCleaningChunk]
        poolScanned logScanned) =
   Some ([], [1, 3])"
  by (simp add: pool_call_def poolScanned_simps CleaningChunk_def
      fourChunks_def WriteMetaPage_StubFs to_string_digits
      GetFile_def GetFile_loop.simps GetFile_body_def GetChunk_def wake_up_def
      options6_simps RENAME_NOREPLACE_def EEXIST_def Let_def)

theorem zero_is_never_a_chunk_witness:
  "Initialize fourChunks libStub options6 (FilePool_new options16M) [] =
     Some (True, poolScanned, logScanned) \<and>
   getFileFromPool options6 \<and> 1 \<le> currentmaxfilenum poolScanned \<and>
   (\<exists>pool fs.
      pool_run fourChunks
        [CallGetFile ''/a'' page4K False, CallGetFile ''/b'' page4K False, CallCleaningChunk]
        poolScanned logScanned = Some (pool, fs) \<and>
      dirtyChunks pool = [] \<and> cleanChunks pool = [1, 3] \<and>
      0 \<notin> set (dirtyChunks pool) \<and> 0 \<notin> set (cleanChunks pool) \<and>
      fst (popBack DirtyChunks pool) = 0)"
proof -
  from run_get_get_clean obtain pool fs where
    r: "pool_run fourChunks
          [CallGetFile ''/a'' page4K False, CallGetFile ''/b'' page4K False, CallCleaningChunk]
          poolScanned logScanned = Some (pool, fs)"
    and l: "dirtyChunks pool = []" "cleanChunks pool = [1, 3]"
    by fastforce
  have n: "length [CallGetFile ''/a'' page4K False, CallGetFile ''/b'' page4K False,
                   CallCleaningChunk] < 2 ^ 62"
    by simp
  from zero_is_never_a_chunk [OF Initialize_fourChunks n r] l
  have "0 \<notin> set (dirtyChunks pool)" "0 \<notin> set (cleanChunks pool)"
    "getFileFromPool options6 \<longrightarrow> 1 \<le> currentmaxfilenum poolScanned"
    "fst (popBack DirtyChunks pool) = 0"
    by simp_all
  with Initialize_fourChunks r l show ?thesis by (simp add: options6_simps)
qed

subsection \<open>The number of a recycled chunk\<close>

text \<open>
  Claim C2 fails on the code. \<open>RecycleFile\<close> adds 1 to \<open>currentmaxfilenum_\<close> and then
  uses the value it loads, so the number it pushes is equal to \<open>currentmaxfilenum_\<close>,
  not below it. On the scanned pool (next number 5) it pushes 6 and leaves
  \<open>currentmaxfilenum_ = 6\<close>. When the format worker takes its numbers after that, it
  starts at 6 again: chunk 6 is then in the dirty list and in the clean list.
\<close>

theorem RecycleFile_number_equals_max:
  "Initialize fourChunks libStub options6 (FilePool_new options16M) [] =
     Some (True, poolScanned, logScanned) \<and>
   (case RecycleFile fourChunks ''/t'' poolScanned logScanned of
      (r, pool, fs) \<Rightarrow> (r, dirtyChunks pool, cleanChunks pool, currentmaxfilenum pool)) =
     (0, [2, 4, 6], [1, 3], 6) \<and>
   map_option (\<lambda>(pool, fs). (dirtyChunks pool, cleanChunks pool, currentmaxfilenum pool))
     (pool_run fourChunks [CallRecycleFile ''/t'', CallFormatWorker, CallFormatTask]
        poolScanned logScanned) =
     Some ([2, 4, 6], [1, 3, 6], 8)"
proof -
  have "(case RecycleFile fourChunks ''/t'' poolScanned logScanned of
      (r, pool, fs) \<Rightarrow> (r, dirtyChunks pool, cleanChunks pool, currentmaxfilenum pool)) =
     (0, [2, 4, 6], [1, 3], 6)"
    by (simp add: RecycleFile_def poolScanned_simps fourChunks_def options6_simps Let_def)
  moreover have "map_option (\<lambda>(pool, fs). (dirtyChunks pool, cleanChunks pool, currentmaxfilenum pool))
     (pool_run fourChunks [CallRecycleFile ''/t'', CallFormatWorker, CallFormatTask]
        poolScanned logScanned) =
     Some ([2, 4, 6], [1, 3, 6], 8)"
    by (simp add: pool_call_def FormatWorker_begin_def FormatTask_body_def poolScanned_simps
        fourChunks_def AllocateChunk_StubFs to_string_small RecycleFile_def
        options6_simps kCleanChunkSuffix_def Let_def)
  ultimately show ?thesis using Initialize_fourChunks by simp
qed

subsection \<open>The manifest\<close>

lemma take_padded:
  "length s \<le> n \<Longrightarrow>
   take n ((s @ replicate (n - length s) c) @ replicate n c) = s @ replicate (n - length s) c"
  by simp

lemma takeWhile_padded:
  "c \<notin> set s \<Longrightarrow> takeWhile (\<lambda>x. x \<noteq> c) (s @ replicate m c) = s"
  by (induction s) (auto simp: takeWhile_replicate)

lemma pad_in_padded:
  "length s < n \<Longrightarrow> c \<in> set (s @ replicate (n - length s) c)"
  by simp

lemma asUInt_uint: "asUInt (JInt (uint (w::u32))) = Some w"
proof -
  have "uint w < 2 ^ 32" using uint_bounded [of w] by simp
  then show ?thesis by simp
qed

text \<open>
  The meta that \<open>DecodeMetaInfoFromMetaFile\<close> gives for the manifest of \<open>meta\<close>: the
  block size of a manifest without one is the default.
\<close>

lemma Decode_members_meta_root:
  assumes "parse lib str = Some (meta_root lib meta)"
  shows "Decode_members lib str meta0 =
     Some (True, Crc32 lib meta,
           \<lparr>meta_chunkSize = meta_chunkSize meta, meta_metaPageSize = meta_metaPageSize meta,
            meta_hasBlockSize = meta_hasBlockSize meta,
            meta_blockSize = (if meta_hasBlockSize meta then meta_blockSize meta
                              else kDefaultBlockSize lib),
            meta_filePoolPath = meta_filePoolPath meta\<rparr>)"
proof (cases "meta_hasBlockSize meta")
  case True
  then have r: "meta_root lib meta =
     [(''chunkSize'', JInt (uint (meta_chunkSize meta))),
      (''metaPageSize'', JInt (uint (meta_metaPageSize meta))),
      (''blockSize'', JInt (uint (meta_blockSize meta))),
      (''chunkfilepool_path'', JStr (meta_filePoolPath meta)),
      (''crc'', JInt (uint (Crc32 lib meta)))]"
    by (simp add: meta_root_def json_set_def kFileSize_def kMetaPageSize_def
        kBlockSize_def kFilePoolPath_def kCRC_def Let_def)
  show ?thesis
    unfolding Decode_members_def assms r
    using True
    by (simp add: json_get_def kFileSize_def kMetaPageSize_def kBlockSize_def
        kFilePoolPath_def kCRC_def asUInt_uint del: asUInt.simps)
next
  case False
  then have r: "meta_root lib meta =
     [(''chunkSize'', JInt (uint (meta_chunkSize meta))),
      (''metaPageSize'', JInt (uint (meta_metaPageSize meta))),
      (''chunkfilepool_path'', JStr (meta_filePoolPath meta)),
      (''crc'', JInt (uint (Crc32 lib meta)))]"
    by (simp add: meta_root_def json_set_def kFileSize_def kMetaPageSize_def
        kBlockSize_def kFilePoolPath_def kCRC_def Let_def)
  show ?thesis
    unfolding Decode_members_def assms r
    using False
    by (simp add: json_get_def kFileSize_def kMetaPageSize_def kBlockSize_def
        kFilePoolPath_def kCRC_def asUInt_uint del: asUInt.simps)
qed

lemma Crc32_decoded:
  "Crc32 lib
     \<lparr>meta_chunkSize = meta_chunkSize meta, meta_metaPageSize = meta_metaPageSize meta,
      meta_hasBlockSize = meta_hasBlockSize meta,
      meta_blockSize = (if meta_hasBlockSize meta then meta_blockSize meta
                        else kDefaultBlockSize lib),
      meta_filePoolPath = meta_filePoolPath meta\<rparr> = Crc32 lib meta"
  by (simp add: Crc32_def)

lemma PersistEnCodeMetaInfo_result:
  assumes "Open fsptr fs path (O_RDWR OR O_CREAT OR O_SYNC) = (fd, fs1)" and "0 \<le> fd"
    and "length (toStyledString lib (meta_root lib meta)) \<le> unat kPersistSize"
    and "Write fsptr fs1 fd
           (toStyledString lib (meta_root lib meta) @
            replicate (unat kPersistSize - length (toStyledString lib (meta_root lib meta)))
              (CHR 0x00))
           0 (ucast kPersistSize) = (uint kPersistSize, fs2)"
    and "Close fsptr fs2 fd = (rc, fs3)"
  shows "PersistEnCodeMetaInfo fsptr lib meta path fs = Some (0, fs3)"
  using assms by (simp add: PersistEnCodeMetaInfo_def Let_def)

lemma DecodeMetaInfoFromMetaFile_result:
  assumes "Open fsptr fs path O_RDONLY = (fd, fs1)" and "0 \<le> fd"
    and "length styled < unat n" and "CHR 0x00 \<notin> set styled"
    and "Read fsptr fs1 fd 0 (ucast n) =
           (sint n, styled @ replicate (unat n - length styled) (CHR 0x00), fs2)"
    and "Close fsptr fs2 fd = (rc, fs3)"
    and "parse lib styled = Some (meta_root lib meta)"
  shows "DecodeMetaInfoFromMetaFile fsptr lib path n meta0 fs =
     Some (0,
           \<lparr>meta_chunkSize = meta_chunkSize meta, meta_metaPageSize = meta_metaPageSize meta,
            meta_hasBlockSize = meta_hasBlockSize meta,
            meta_blockSize = (if meta_hasBlockSize meta then meta_blockSize meta
                              else kDefaultBlockSize lib),
            meta_filePoolPath = meta_filePoolPath meta\<rparr>,
           fs3)"
proof -
  define buf where "buf = styled @ replicate (unat n - length styled) (CHR 0x00)"
  have len: "length buf = unat n"
    using assms(3) by (simp add: buf_def)
  have z: "CHR 0x00 \<in> set buf"
    unfolding buf_def using assms(3) by (rule pad_in_padded)
  have w: "takeWhile (\<lambda>c. c \<noteq> CHR 0x00) buf = styled"
    unfolding buf_def using assms(4) by (rule takeWhile_padded)
  have rd: "Read fsptr fs1 fd 0 (ucast n) = (sint n, buf, fs2)"
    using assms(5) by (simp add: buf_def)
  show ?thesis
    using assms(2) assms(6)
    by (simp add: DecodeMetaInfoFromMetaFile_def Let_def assms(1) rd len z w
        Decode_members_meta_root [OF assms(7)] Crc32_decoded)
qed

text \<open>
  Claim C6, as the code has it. Let the file system keep what is written: the \<open>Open\<close>
  calls succeed, \<open>Write\<close> takes the whole buffer of \<open>kPersistSize = 4096\<close> bytes and
  \<open>Read\<close> gives that buffer back. Let the styled text of the manifest be shorter than
  the buffer and have no zero byte, and let the reader of the JSON library read it back
  as the object that was written. Then \<open>PersistEnCodeMetaInfo\<close> returns 0, and
  \<open>DecodeMetaInfoFromMetaFile\<close> with \<open>metaFileSize = 4096\<close> returns 0 with a meta whose
  \<open>chunkSize\<close>, \<open>metaPageSize\<close>, \<open>hasBlockSize\<close> and \<open>filePoolPath\<close> are those of the
  original; its \<open>blockSize\<close> is that of the original when \<open>hasBlockSize\<close> is true and
  \<open>kDefaultBlockSize\<close> otherwise, so with \<open>hasBlockSize\<close> true the meta is the original.
  The CRC computed from the decoded meta is the stored \<open>crc\<close> member.
\<close>

theorem manifest_round_trip:
  fixes lib :: Library and meta :: FilePoolMeta
  defines "styled \<equiv> toStyledString lib (meta_root lib meta)"
  defines "buffer \<equiv> styled @ replicate (unat kPersistSize - length styled) (CHR 0x00)"
  assumes "Open fsptr fs path (O_RDWR OR O_CREAT OR O_SYNC) = (fd, fs1)" and "0 \<le> fd"
    and "length styled < unat kPersistSize" and "CHR 0x00 \<notin> set styled"
    and "Write fsptr fs1 fd buffer 0 (ucast kPersistSize) = (uint kPersistSize, fs2)"
    and "Close fsptr fs2 fd = (rc, fs3)"
    and "Open fsptr fs3 path O_RDONLY = (fd', fs4)" and "0 \<le> fd'"
    and "Read fsptr fs4 fd' 0 (ucast kPersistSize) = (sint kPersistSize, buffer, fs5)"
    and "Close fsptr fs5 fd' = (rc', fs6)"
    and "parse lib styled = Some (meta_root lib meta)"
  shows "PersistEnCodeMetaInfo fsptr lib meta path fs = Some (0, fs3) \<and>
         (\<exists>meta'.
            DecodeMetaInfoFromMetaFile fsptr lib path kPersistSize meta0 fs3 =
              Some (0, meta', fs6) \<and>
            meta_chunkSize meta' = meta_chunkSize meta \<and>
            meta_metaPageSize meta' = meta_metaPageSize meta \<and>
            meta_hasBlockSize meta' = meta_hasBlockSize meta \<and>
            meta_filePoolPath meta' = meta_filePoolPath meta \<and>
            meta_blockSize meta' =
              (if meta_hasBlockSize meta then meta_blockSize meta else kDefaultBlockSize lib) \<and>
            (meta_hasBlockSize meta \<longrightarrow> meta' = meta) \<and>
            asUInt (json_get (meta_root lib meta) kCRC) = Some (Crc32 lib meta'))"
proof -
  have e: "PersistEnCodeMetaInfo fsptr lib meta path fs = Some (0, fs3)"
  proof (rule PersistEnCodeMetaInfo_result)
    show "Open fsptr fs path (O_RDWR OR O_CREAT OR O_SYNC) = (fd, fs1)" by fact
    show "0 \<le> fd" by fact
    show "length (toStyledString lib (meta_root lib meta)) \<le> unat kPersistSize"
      using assms(5) by (simp add: styled_def)
    show "Write fsptr fs1 fd
           (toStyledString lib (meta_root lib meta) @
            replicate (unat kPersistSize - length (toStyledString lib (meta_root lib meta)))
              (CHR 0x00))
           0 (ucast kPersistSize) = (uint kPersistSize, fs2)"
      using assms(7) by (simp add: styled_def buffer_def)
    show "Close fsptr fs2 fd = (rc, fs3)" by fact
  qed
  have d: "DecodeMetaInfoFromMetaFile fsptr lib path kPersistSize meta0 fs3 =
     Some (0,
           \<lparr>meta_chunkSize = meta_chunkSize meta, meta_metaPageSize = meta_metaPageSize meta,
            meta_hasBlockSize = meta_hasBlockSize meta,
            meta_blockSize = (if meta_hasBlockSize meta then meta_blockSize meta
                              else kDefaultBlockSize lib),
            meta_filePoolPath = meta_filePoolPath meta\<rparr>,
           fs6)"
  proof (rule DecodeMetaInfoFromMetaFile_result)
    show "Open fsptr fs3 path O_RDONLY = (fd', fs4)" by fact
    show "0 \<le> fd'" by fact
    show "length styled < unat kPersistSize" by fact
    show "CHR 0x00 \<notin> set styled" by fact
    show "Read fsptr fs4 fd' 0 (ucast kPersistSize) =
           (sint kPersistSize, styled @ replicate (unat kPersistSize - length styled) (CHR 0x00),
            fs5)"
      using assms(11) by (simp add: buffer_def)
    show "Close fsptr fs5 fd' = (rc', fs6)" by fact
    show "parse lib styled = Some (meta_root lib meta)" by fact
  qed
  have c: "asUInt (json_get (meta_root lib meta) kCRC) = Some (Crc32 lib meta)"
    by (simp add: meta_root_def json_set_def json_get_def Let_def asUInt_uint
        del: asUInt.simps)
  from e d c show ?thesis
    by (simp add: Crc32_decoded)
qed

lemma libStub_simps:
  "kFilePoolMagic libStub = ''01''"
  "kDefaultBlockSize libStub = 4096"
  "toStyledString libStub = write_object"
  "parse libStub = read_object"
  "CRC32 libStub = (\<lambda>s. of_nat (sum_list (map of_char s)))"
  by (simp_all add: libStub_def)

lemma Crc32_stub:
  "Crc32 libStub metaBlock512 = 275" "Crc32 libStub metaLegacy = 273"
  by (simp_all add: Crc32_def libStub_simps metaBlock512_def metaLegacy_def bytes_of_u32_def)


lemma decimal_digits:
  "decimal 16777216 = ''16777216''" "decimal 4096 = ''4096''" "decimal 512 = ''512''"
  "decimal 275 = ''275''" "decimal 273 = ''273''"
  by (simp_all add: decimal.simps)

lemma meta_root_stub:
  "meta_root libStub metaBlock512 =
     [(''chunkSize'', JInt 16777216), (''metaPageSize'', JInt 4096), (''blockSize'', JInt 512),
      (''chunkfilepool_path'', JStr ''/p''), (''crc'', JInt 275)]"
  "meta_root libStub metaLegacy =
     [(''chunkSize'', JInt 16777216), (''metaPageSize'', JInt 4096),
      (''chunkfilepool_path'', JStr ''/p''), (''crc'', JInt 273)]"
  by (simp_all add: meta_root_def Crc32_stub json_set_def kFileSize_def kMetaPageSize_def
      kBlockSize_def kFilePoolPath_def kCRC_def Let_def)
     (simp_all add: metaBlock512_def metaLegacy_def)

lemma write_object_stub:
  "write_object (meta_root libStub metaBlock512) =
     ''chunkSize=16777216'' @ [CHR 0x0A] @ ''metaPageSize=4096'' @ [CHR 0x0A] @
     ''blockSize=512'' @ [CHR 0x0A] @
     ''chunkfilepool_path='' @ [CHR 0x22] @ ''/p'' @ [CHR 0x22, CHR 0x0A] @
     ''crc=275'' @ [CHR 0x0A]"
  "write_object (meta_root libStub metaLegacy) =
     ''chunkSize=16777216'' @ [CHR 0x0A] @ ''metaPageSize=4096'' @ [CHR 0x0A] @
     ''chunkfilepool_path='' @ [CHR 0x22] @ ''/p'' @ [CHR 0x22, CHR 0x0A] @
     ''crc=273'' @ [CHR 0x0A]"
  by (simp_all add: meta_root_stub write_object_def decimal_digits)

lemma read_object_stub:
  "read_object (write_object (meta_root libStub metaBlock512)) =
     Some (meta_root libStub metaBlock512)"
  "read_object (write_object (meta_root libStub metaLegacy)) =
     Some (meta_root libStub metaLegacy)"
  by (simp_all add: write_object_stub)
     (simp_all add: meta_root_stub read_object_def read_member_def read_value_def isdigit_def)

lemma MemFs_simps:
  "Open MemFs = (\<lambda>fs p fl. (3, fs))"
  "Close MemFs = (\<lambda>fs fd. (0, fs))"
  "Write MemFs = (\<lambda>fs fd buf off len. (uint len, buf))"
  "Read MemFs = (\<lambda>fs fd off len. (uint len, fs, fs))"
  by (simp_all add: MemFs_def)

lemma kPersistSize_conv:
  "uint (ucast kPersistSize :: u64) = uint kPersistSize"
  "sint kPersistSize = uint kPersistSize"
  by (simp_all add: kPersistSize_def)

lemma styled_stub:
  "length (toStyledString libStub (meta_root libStub metaBlock512)) < unat kPersistSize"
  "CHR 0x00 \<notin> set (toStyledString libStub (meta_root libStub metaBlock512))"
  "parse libStub (toStyledString libStub (meta_root libStub metaBlock512)) =
     Some (meta_root libStub metaBlock512)"
  "length (toStyledString libStub (meta_root libStub metaLegacy)) < unat kPersistSize"
  "CHR 0x00 \<notin> set (toStyledString libStub (meta_root libStub metaLegacy))"
  "parse libStub (toStyledString libStub (meta_root libStub metaLegacy)) =
     Some (meta_root libStub metaLegacy)"
  by (simp_all add: libStub_simps read_object_stub)
     (simp_all add: write_object_stub kPersistSize_def)

theorem manifest_round_trip_witness:
  "length (toStyledString libStub (meta_root libStub metaBlock512)) < unat kPersistSize \<and>
   CHR 0x00 \<notin> set (toStyledString libStub (meta_root libStub metaBlock512)) \<and>
   parse libStub (toStyledString libStub (meta_root libStub metaBlock512)) =
     Some (meta_root libStub metaBlock512) \<and>
   meta_hasBlockSize metaBlock512 \<and>
   PersistEnCodeMetaInfo MemFs libStub metaBlock512 ''/meta'' [] =
     Some (0, toStyledString libStub (meta_root libStub metaBlock512) @
              replicate (unat kPersistSize -
                         length (toStyledString libStub (meta_root libStub metaBlock512)))
                (CHR 0x00)) \<and>
   DecodeMetaInfoFromMetaFile MemFs libStub ''/meta'' kPersistSize FilePoolMeta_default
     (toStyledString libStub (meta_root libStub metaBlock512) @
      replicate (unat kPersistSize -
                 length (toStyledString libStub (meta_root libStub metaBlock512)))
        (CHR 0x00)) =
     Some (0, metaBlock512,
           toStyledString libStub (meta_root libStub metaBlock512) @
           replicate (unat kPersistSize -
                      length (toStyledString libStub (meta_root libStub metaBlock512)))
             (CHR 0x00))"
proof -
  define b where "b = toStyledString libStub (meta_root libStub metaBlock512) @
      replicate (unat kPersistSize -
                 length (toStyledString libStub (meta_root libStub metaBlock512)))
        (CHR 0x00)"
  have o1: "Open MemFs [] ''/meta'' (O_RDWR OR O_CREAT OR O_SYNC) = (3, [])"
    by (simp add: MemFs_simps)
  have w: "Write MemFs [] 3
       (toStyledString libStub (meta_root libStub metaBlock512) @
        replicate (unat kPersistSize -
                   length (toStyledString libStub (meta_root libStub metaBlock512)))
          (CHR 0x00)) 0 (ucast kPersistSize) = (uint kPersistSize, b)"
    by (simp add: MemFs_simps kPersistSize_conv b_def)
  have c1: "Close MemFs b 3 = (0, b)" by (simp add: MemFs_simps)
  have o2: "Open MemFs b ''/meta'' O_RDONLY = (3, b)" by (simp add: MemFs_simps)
  have r: "Read MemFs b 3 0 (ucast kPersistSize) =
       (sint kPersistSize,
        toStyledString libStub (meta_root libStub metaBlock512) @
        replicate (unat kPersistSize -
                   length (toStyledString libStub (meta_root libStub metaBlock512)))
          (CHR 0x00), b)"
    by (simp add: MemFs_simps kPersistSize_conv b_def)
  have h: "meta_hasBlockSize metaBlock512" by (simp add: metaBlock512_def)
  from manifest_round_trip [OF o1 _ styled_stub(1) styled_stub(2) w c1 o2 _ r c1
      styled_stub(3), of FilePoolMeta_default]
  obtain meta' where
    "PersistEnCodeMetaInfo MemFs libStub metaBlock512 ''/meta'' [] = Some (0, b)"
    "DecodeMetaInfoFromMetaFile MemFs libStub ''/meta'' kPersistSize FilePoolMeta_default b =
       Some (0, meta', b)"
    "meta_hasBlockSize metaBlock512 \<longrightarrow> meta' = metaBlock512"
    by auto
  with h styled_stub(1,2,3) show ?thesis
    by (simp add: b_def)
qed

lemma MemFs_round_trip:
  assumes "length (toStyledString lib (meta_root lib meta)) < unat kPersistSize"
    and "CHR 0x00 \<notin> set (toStyledString lib (meta_root lib meta))"
    and "parse lib (toStyledString lib (meta_root lib meta)) = Some (meta_root lib meta)"
  shows "PersistEnCodeMetaInfo MemFs lib meta path fs =
           Some (0, toStyledString lib (meta_root lib meta) @
                    replicate (unat kPersistSize -
                               length (toStyledString lib (meta_root lib meta))) (CHR 0x00))"
    and "DecodeMetaInfoFromMetaFile MemFs lib path kPersistSize meta0
           (toStyledString lib (meta_root lib meta) @
            replicate (unat kPersistSize -
                       length (toStyledString lib (meta_root lib meta))) (CHR 0x00)) =
         Some (0,
           \<lparr>meta_chunkSize = meta_chunkSize meta, meta_metaPageSize = meta_metaPageSize meta,
            meta_hasBlockSize = meta_hasBlockSize meta,
            meta_blockSize = (if meta_hasBlockSize meta then meta_blockSize meta
                              else kDefaultBlockSize lib),
            meta_filePoolPath = meta_filePoolPath meta\<rparr>,
           toStyledString lib (meta_root lib meta) @
           replicate (unat kPersistSize -
                      length (toStyledString lib (meta_root lib meta))) (CHR 0x00))"
proof -
  define b where "b = toStyledString lib (meta_root lib meta) @
      replicate (unat kPersistSize - length (toStyledString lib (meta_root lib meta)))
        (CHR 0x00)"
  from assms(1)
  have le: "length (toStyledString lib (meta_root lib meta)) \<le> unat kPersistSize"
    by simp
  have o1: "Open MemFs fs path (O_RDWR OR O_CREAT OR O_SYNC) = (3, fs)"
    by (simp add: MemFs_simps)
  have w: "Write MemFs fs 3
       (toStyledString lib (meta_root lib meta) @
        replicate (unat kPersistSize - length (toStyledString lib (meta_root lib meta)))
          (CHR 0x00)) 0 (ucast kPersistSize) = (uint kPersistSize, b)"
    by (simp add: MemFs_simps kPersistSize_conv b_def)
  have c1: "Close MemFs b 3 = (0, b)" by (simp add: MemFs_simps)
  have o2: "Open MemFs b path O_RDONLY = (3, b)" by (simp add: MemFs_simps)
  have r: "Read MemFs b 3 0 (ucast kPersistSize) =
       (sint kPersistSize,
        toStyledString lib (meta_root lib meta) @
        replicate (unat kPersistSize - length (toStyledString lib (meta_root lib meta)))
          (CHR 0x00), b)"
    by (simp add: MemFs_simps kPersistSize_conv b_def)
  from PersistEnCodeMetaInfo_result [OF o1 _ le w c1]
  show "PersistEnCodeMetaInfo MemFs lib meta path fs =
           Some (0, toStyledString lib (meta_root lib meta) @
                    replicate (unat kPersistSize -
                               length (toStyledString lib (meta_root lib meta))) (CHR 0x00))"
    by (simp add: b_def)
  from DecodeMetaInfoFromMetaFile_result [OF o2 _ assms(1) assms(2) r c1 assms(3), of meta0]
  show "DecodeMetaInfoFromMetaFile MemFs lib path kPersistSize meta0
           (toStyledString lib (meta_root lib meta) @
            replicate (unat kPersistSize -
                       length (toStyledString lib (meta_root lib meta))) (CHR 0x00)) =
         Some (0,
           \<lparr>meta_chunkSize = meta_chunkSize meta, meta_metaPageSize = meta_metaPageSize meta,
            meta_hasBlockSize = meta_hasBlockSize meta,
            meta_blockSize = (if meta_hasBlockSize meta then meta_blockSize meta
                              else kDefaultBlockSize lib),
            meta_filePoolPath = meta_filePoolPath meta\<rparr>,
           toStyledString lib (meta_root lib meta) @
           replicate (unat kPersistSize -
                      length (toStyledString lib (meta_root lib meta))) (CHR 0x00))"
    by (simp add: b_def)
qed

text \<open>
  The claim as the specification states it fails for a manifest without a block size
  whose \<open>blockSize\<close> field is not the default. The encoder leaves the member out and
  the decoder sets \<open>blockSize = kDefaultBlockSize\<close>: a meta with \<open>blockSize = 0\<close> comes
  back with \<open>blockSize = 4096\<close>.
\<close>

theorem manifest_without_blockSize_counterexample:
  "meta_blockSize metaLegacy = 0 \<and>
   PersistEnCodeMetaInfo MemFs libStub metaLegacy ''/meta'' [] =
     Some (0, toStyledString libStub (meta_root libStub metaLegacy) @
              replicate (unat kPersistSize -
                         length (toStyledString libStub (meta_root libStub metaLegacy)))
                (CHR 0x00)) \<and>
   map_option (\<lambda>(ret, meta', fs). (ret, meta_hasBlockSize meta', meta_blockSize meta'))
     (DecodeMetaInfoFromMetaFile MemFs libStub ''/meta'' kPersistSize FilePoolMeta_default
        (toStyledString libStub (meta_root libStub metaLegacy) @
         replicate (unat kPersistSize -
                    length (toStyledString libStub (meta_root libStub metaLegacy)))
           (CHR 0x00))) =
     Some (0, False, 4096)"
  by (simp add: MemFs_round_trip [OF styled_stub(4) styled_stub(5) styled_stub(6)])
     (simp add: metaLegacy_def libStub_simps)

end
